theory Spec2Isabelle
  imports Complex_Main
begin

section \<open>Projective Fluids time step (SPlisHSPlasH/PF/TimeStepPF.cpp)\<close>

text \<open>
  A shallow embedding of \<^verbatim>\<open>TimeStepPF\<close>. Conventions:

  \<^item> \<^verbatim>\<open>Real\<close> is modelled by the mathematical reals, so every statement below is a
    statement in exact arithmetic. Rounding, infinities and NaN are outside the model;
    in HOL \<open>x / 0 = 0\<close>, so a statement that involves a quotient describes the source
    only where the divisor is not zero.
  \<^item> \<^verbatim>\<open>VectorXr\<close> is a list of reals, \<^verbatim>\<open>Vector3r\<close> a triple; \<^verbatim>\<open>Vec3Block(i)\<close> reads
    the entries \<open>3i, 3i+1, 3i+2\<close>.
  \<^item> The model object and the simulation data are read and written through accessors
    in the source; here they are the fields of one record, keeping the accessor names.
    The kernel (\<^verbatim>\<open>W\<close>, \<^verbatim>\<open>gradW\<close>, \<^verbatim>\<open>W_zero\<close>) and the neighbour lists are owned by
    collaborators that are not part of the file; they are fields as well.
  \<^item> Every \<^verbatim>\<open>#pragma omp for\<close> loop is run in index order. The loops write disjoint
    entries except through \<^verbatim>\<open>addToAtomicReal\<close>, which adds to one entry; in exact
    arithmetic the order of the additions does not matter.
  \<^item> \<^verbatim>\<open>numVariables = 3u * numParticles\<close> is unsigned 32-bit arithmetic and is written
    with its wrap-around.
\<close>

subsection \<open>Vectors\<close>

datatype Vector3r = Vec3 real real real

fun coeff :: "Vector3r \<Rightarrow> nat \<Rightarrow> real" where
  "coeff (Vec3 a b c) k = (if k = 0 then a else if k = 1 then b else c)"

fun vadd :: "Vector3r \<Rightarrow> Vector3r \<Rightarrow> Vector3r" where
  "vadd (Vec3 a b c) (Vec3 a' b' c') = Vec3 (a + a') (b + b') (c + c')"

fun vsub :: "Vector3r \<Rightarrow> Vector3r \<Rightarrow> Vector3r" where
  "vsub (Vec3 a b c) (Vec3 a' b' c') = Vec3 (a - a') (b - b') (c - c')"

fun vscale :: "real \<Rightarrow> Vector3r \<Rightarrow> Vector3r" where
  "vscale s (Vec3 a b c) = Vec3 (s * a) (s * b) (s * c)"

fun vdiv :: "Vector3r \<Rightarrow> real \<Rightarrow> Vector3r" where
  "vdiv (Vec3 a b c) s = Vec3 (a / s) (b / s) (c / s)"

fun squaredNorm3 :: "Vector3r \<Rightarrow> real" where
  "squaredNorm3 (Vec3 a b c) = a * a + b * b + c * c"

definition vzero :: Vector3r where
  "vzero = Vec3 0 0 0"

type_synonym VectorXr = "real list"

definition Vec3Block :: "VectorXr \<Rightarrow> nat \<Rightarrow> Vector3r" where
  "Vec3Block x i = Vec3 (x ! (3 * i)) (x ! (3 * i + 1)) (x ! (3 * i + 2))"

text \<open>Eigen's coefficient-wise operations on vectors of one size.\<close>

definition xadd :: "VectorXr \<Rightarrow> VectorXr \<Rightarrow> VectorXr" where
  "xadd u v = map2 (+) u v"

definition xsub :: "VectorXr \<Rightarrow> VectorXr \<Rightarrow> VectorXr" where
  "xsub u v = map2 (-) u v"

definition xscale :: "real \<Rightarrow> VectorXr \<Rightarrow> VectorXr" where
  "xscale s v = map ((*) s) v"

definition dot :: "VectorXr \<Rightarrow> VectorXr \<Rightarrow> real" where
  "dot u v = sum_list (map2 (*) u v)"

definition squaredNorm :: "VectorXr \<Rightarrow> real" where
  "squaredNorm v = sum_list (map (\<lambda>a. a * a) v)"

subsection \<open>The model and the simulation data\<close>

record NeighborId =
  point_set_id :: nat
  point_id :: nat

record TimeStepPF =
  numParticles :: nat
  getPosition :: "nat \<Rightarrow> nat \<Rightarrow> Vector3r"
  getVelocity :: "nat \<Rightarrow> Vector3r"
  getAcceleration :: "nat \<Rightarrow> Vector3r"
  getMass :: "nat \<Rightarrow> real"
  getDensity0 :: real
  getStiffness :: real
  getBoundaryPsi :: "nat \<Rightarrow> nat \<Rightarrow> real"
  getNeighbors :: "nat \<Rightarrow> NeighborId list"
  W_zero :: real
  W :: "Vector3r \<Rightarrow> real"
  gradW :: "Vector3r \<Rightarrow> Vector3r"
  getTimeStepSize :: real
  getOldPosition :: "nat \<Rightarrow> Vector3r"
  getS :: "nat \<Rightarrow> Vector3r"
  getX :: VectorXr
  getNumFluidNeighbors :: "nat \<Rightarrow> nat"
  m_maxIterations :: nat

definition numberOfNeighbors :: "TimeStepPF \<Rightarrow> nat \<Rightarrow> nat" where
  "numberOfNeighbors st i = length (getNeighbors st i)"

definition getNeighbor :: "TimeStepPF \<Rightarrow> nat \<Rightarrow> nat \<Rightarrow> NeighborId" where
  "getNeighbor st i j = getNeighbors st i ! j"

definition numVariables :: "TimeStepPF \<Rightarrow> nat" where
  "numVariables st = (3 * numParticles st) mod 4294967296"

text \<open>
  What the source takes for granted and the theorems below name when they need it:
  the flattened index fits the unsigned type, and every fluid neighbour is a particle.
\<close>

definition neighborsValid :: "TimeStepPF \<Rightarrow> bool" where
  "neighborsValid st \<longleftrightarrow>
     3 * numParticles st < 4294967296 \<and>
     (\<forall>i < numParticles st. \<forall>nb \<in> set (getNeighbors st i).
        point_set_id nb = 0 \<longrightarrow> point_id nb < numParticles st)"

subsection \<open>Atomic accumulation\<close>

definition addToAtomicReal :: "VectorXr \<Rightarrow> nat \<Rightarrow> real \<Rightarrow> VectorXr" where
  "addToAtomicReal acc k r = acc[k := acc ! k + r]"

text \<open>\<^verbatim>\<open>for (c = 0; c < 3; c++) addToAtomicReal(accumulator[3 * i + c]._a, v[c])\<close>\<close>

definition addBlock :: "VectorXr \<Rightarrow> nat \<Rightarrow> Vector3r \<Rightarrow> VectorXr" where
  "addBlock acc i v = fold (\<lambda>c a. addToAtomicReal a (3 * i + c) (coeff v c)) [0..<3] acc"

subsection \<open>matrixFreeLHS\<close>

definition lhsNeighbor :: "VectorXr \<Rightarrow> NeighborId \<Rightarrow> VectorXr \<Rightarrow> VectorXr" where
  "lhsNeighbor x nb acc =
     (if point_set_id nb \<noteq> 0 then acc
      else addBlock acc (point_id nb) (Vec3Block x (point_id nb)))"

definition lhsParticle :: "TimeStepPF \<Rightarrow> VectorXr \<Rightarrow> nat \<Rightarrow> VectorXr \<Rightarrow> VectorXr" where
  "lhsParticle st x i acc =
     fold (\<lambda>j a. lhsNeighbor x (getNeighbor st i j) a) [0..<numberOfNeighbors st i]
       (addBlock acc i (Vec3Block x i))"

definition lhsAccumulator :: "TimeStepPF \<Rightarrow> VectorXr \<Rightarrow> VectorXr" where
  "lhsAccumulator st x =
     fold (lhsParticle st x) [0..<numParticles st] (replicate (numVariables st) 0)"

text \<open>
  The second pass of both \<^verbatim>\<open>matrixFreeLHS\<close> and \<^verbatim>\<open>matrixFreeRHS\<close>: entry \<open>3i + c\<close>
  is \<open>system_scale * accumulator[3i + c] + m * v i c\<close>.
\<close>

definition combine :: "TimeStepPF \<Rightarrow> VectorXr \<Rightarrow> (nat \<Rightarrow> nat \<Rightarrow> real) \<Rightarrow> VectorXr" where
  "combine st acc v =
     (let system_scale = getTimeStepSize st * getTimeStepSize st * getStiffness st
      in concat (map (\<lambda>i. map (\<lambda>c. system_scale * acc ! (3 * i + c) + getMass st i * v i c)
                              [0..<3])
                     [0..<numParticles st]))"

definition matrixFreeLHS :: "TimeStepPF \<Rightarrow> VectorXr \<Rightarrow> VectorXr" where
  "matrixFreeLHS st x = combine st (lhsAccumulator st x) (\<lambda>i c. x ! (3 * i + c))"

subsection \<open>matrixFreeRHS: the local projection\<close>

definition density0_inv :: "TimeStepPF \<Rightarrow> real" where
  "density0_inv st = 1 / getDensity0 st"

text \<open>The positions of one constraint: \<open>p[0]\<close> is particle \<open>i\<close>, \<open>p[j + 1]\<close> its neighbour \<open>j\<close>.\<close>

definition gatherP :: "TimeStepPF \<Rightarrow> nat \<Rightarrow> Vector3r list" where
  "gatherP st i =
     Vec3Block (getX st) i #
     map (\<lambda>j. let nb = getNeighbor st i j
              in if point_set_id nb = 0 then Vec3Block (getX st) (point_id nb)
                 else getPosition st (point_set_id nb) (point_id nb))
         [0..<numberOfNeighbors st i]"

definition densityTerm :: "TimeStepPF \<Rightarrow> nat \<Rightarrow> Vector3r list \<Rightarrow> nat \<Rightarrow> real" where
  "densityTerm st i p j =
     (let nb = getNeighbor st i j; xi = p ! 0; xj = p ! (j + 1)
      in if point_set_id nb = 0 then getMass st (point_id nb) * W st (vsub xi xj)
         else getBoundaryPsi st (point_set_id nb) (point_id nb) * W st (vsub xi xj))"

definition density :: "TimeStepPF \<Rightarrow> nat \<Rightarrow> Vector3r list \<Rightarrow> real" where
  "density st i p =
     fold (\<lambda>j d. d + densityTerm st i p j) [0..<numberOfNeighbors st i]
       (getMass st i * W_zero st)"

definition calculateC :: "TimeStepPF \<Rightarrow> nat \<Rightarrow> Vector3r list \<Rightarrow> real" where
  "calculateC st i p =
     (let C = density st i p * density0_inv st - 1
      in if C < 0 then 0 else C)"

text \<open>
  \<^verbatim>\<open>calculateNablaC\<close>: the gradient as a list of blocks. Block \<open>j + 1\<close> is assigned in
  iteration \<open>j\<close> and subtracted from block \<open>0\<close>, which starts at zero.
\<close>

definition nablaBlock :: "TimeStepPF \<Rightarrow> nat \<Rightarrow> Vector3r list \<Rightarrow> nat \<Rightarrow> Vector3r" where
  "nablaBlock st i p j =
     (let nb = getNeighbor st i j; xi = p ! 0; xj = p ! (j + 1)
      in if point_set_id nb = 0
         then vscale (- density0_inv st * getMass st (point_id nb)) (gradW st (vsub xi xj))
         else vscale (- density0_inv st * getBoundaryPsi st (point_set_id nb) (point_id nb))
                (gradW st (vsub xi xj)))"

definition calculateNablaC :: "TimeStepPF \<Rightarrow> nat \<Rightarrow> Vector3r list \<Rightarrow> Vector3r list" where
  "calculateNablaC st i p =
     fold (\<lambda>j g. let g1 = g[j + 1 := nablaBlock st i p j]
                 in g1[0 := vsub (g1 ! 0) (g1 ! (j + 1))])
       [0..<numberOfNeighbors st i]
       (replicate (length p) vzero)"

definition squaredNormBlocks :: "Vector3r list \<Rightarrow> real" where
  "squaredNormBlocks g = sum_list (map squaredNorm3 g)"

definition C_goal :: real where
  "C_goal = 1 / 10 ^ 14"

definition max_steps :: nat where
  "max_steps = 100"

text \<open>The literal \<^verbatim>\<open>1e-6f\<close> of the step size, read as the real number it denotes.\<close>

definition regularization :: real where
  "regularization = 1 / 10 ^ 6"

text \<open>One pass of the loop body after the gradient test: the positions moved by \<open>cdg\<close>.\<close>

definition moveParticles ::
  "TimeStepPF \<Rightarrow> nat \<Rightarrow> real \<Rightarrow> Vector3r list \<Rightarrow> Vector3r list \<Rightarrow> Vector3r list" where
  "moveParticles st i cdg g p =
     vadd (p ! 0) (vscale (cdg * real (getNumFluidNeighbors st i)) (g ! 0)) #
     map (\<lambda>j. let nb = getNeighbor st i j
              in if point_set_id nb = 0
                 then vadd (p ! (j + 1))
                        (vscale (cdg * real (getNumFluidNeighbors st (point_id nb))) (g ! (j + 1)))
                 else p ! (j + 1))
         [0..<numberOfNeighbors st i]"

text \<open>
  \<^verbatim>\<open>while ((std::abs(C) > C_goal) && it++ < max_steps) { ... }\<close>. The argument \<open>it\<close> is
  the counter before the test; the body sees \<open>it + 1\<close>. The result is the final
  positions and the number of times the body was entered.
\<close>

function projectionLoop ::
  "TimeStepPF \<Rightarrow> nat \<Rightarrow> nat \<Rightarrow> real \<Rightarrow> Vector3r list \<Rightarrow> Vector3r list \<times> nat" where
  "projectionLoop st i it C p =
     (if \<bar>C\<bar> > C_goal \<and> it < max_steps then
        (let it1 = it + 1;
             g = calculateNablaC st i p;
             dg = squaredNormBlocks g
         in if dg = 0 then (p, it1)
            else
              (let cdg = - C / (dg + regularization);
                   p1 = moveParticles st i cdg g p;
                   C1 = (if it1 + 1 < max_steps then calculateC st i p1 else C)
               in projectionLoop st i it1 C1 p1))
      else (p, it))"
  by pat_completeness auto
termination
  by (relation "measure (\<lambda>(st, i, it, C, p). max_steps - it)") auto

definition project :: "TimeStepPF \<Rightarrow> nat \<Rightarrow> Vector3r list \<times> nat" where
  "project st i = (let p = gatherP st i in projectionLoop st i 0 (calculateC st i p) p)"

definition rhsNeighbor ::
  "TimeStepPF \<Rightarrow> nat \<Rightarrow> Vector3r list \<Rightarrow> nat \<Rightarrow> VectorXr \<Rightarrow> VectorXr" where
  "rhsNeighbor st i p j acc =
     (let nb = getNeighbor st i j
      in if point_set_id nb \<noteq> 0 then acc else addBlock acc (point_id nb) (p ! (j + 1)))"

definition rhsParticle :: "TimeStepPF \<Rightarrow> nat \<Rightarrow> VectorXr \<Rightarrow> VectorXr" where
  "rhsParticle st i acc =
     (let p = fst (project st i)
      in fold (rhsNeighbor st i p) [0..<numberOfNeighbors st i] (addBlock acc i (p ! 0)))"

definition rhsAccumulator :: "TimeStepPF \<Rightarrow> VectorXr" where
  "rhsAccumulator st =
     fold (rhsParticle st) [0..<numParticles st] (replicate (numVariables st) 0)"

definition matrixFreeRHS :: "TimeStepPF \<Rightarrow> VectorXr" where
  "matrixFreeRHS st = combine st (rhsAccumulator st) (\<lambda>i c. coeff (getS st i) c)"

subsection \<open>calculateNegativeGradient and cgSolve\<close>

datatype CGSolveState = ALREADY_SOLVED | CONVERGED | MAX_ITER_REACHED

text \<open>Returns the new \<open>r\<close> and the (possibly rebuilt) \<open>b\<close>.\<close>

definition calculateNegativeGradient ::
  "TimeStepPF \<Rightarrow> VectorXr \<Rightarrow> bool \<Rightarrow> VectorXr \<times> VectorXr" where
  "calculateNegativeGradient st b updateRhs =
     (let r = matrixFreeLHS st (getX st);
          b1 = (if updateRhs then matrixFreeRHS st else b)
      in (xsub b1 r, b1))"

definition tol_abs :: real where
  "tol_abs = 1 / 10 ^ 10"

definition tol_rel :: real where
  "tol_rel = 1 / 10 ^ 8"

definition restart_iterations :: nat where
  "restart_iterations = 50"

definition converged :: "real \<Rightarrow> real \<Rightarrow> bool" where
  "converged delta_new delta_0 \<longleftrightarrow> delta_new < tol_abs \<or> delta_new < tol_rel * delta_0"

text \<open>
  The loop of \<^verbatim>\<open>cgSolve\<close> from iteration \<open>cg_it\<close> on. The state carries \<open>x\<close> (the map onto
  \<^verbatim>\<open>m_simulationData.getX()\<close>). The last component of the result is not in the source:
  it records \<open>delta_new\<close> and \<open>x\<close> after every iteration, in order, after the entries of
  \<open>tr\<close>.
\<close>

function cgLoop ::
  "TimeStepPF \<Rightarrow> VectorXr \<Rightarrow> real \<Rightarrow> nat \<Rightarrow> VectorXr \<Rightarrow> VectorXr \<Rightarrow> real
     \<Rightarrow> (real \<times> VectorXr) list \<Rightarrow> CGSolveState \<times> TimeStepPF \<times> (real \<times> VectorXr) list" where
  "cgLoop st b delta_0 cg_it d r delta_new tr =
     (if cg_it < numVariables st then
        (let q = matrixFreeLHS st d;
             alpha = delta_new / dot d q;
             st1 = st\<lparr>getX := xadd (getX st) (xscale alpha d)\<rparr>;
             r1 = (if (cg_it + 1) mod restart_iterations = 0
                   then fst (calculateNegativeGradient st1 b False)
                   else xsub r (xscale alpha q));
             delta_old = delta_new;
             delta_new1 = squaredNorm r1
         in if converged delta_new1 delta_0 then (CONVERGED, st1, tr @ [(delta_new1, getX st1)])
            else
              (let beta = delta_new1 / delta_old;
                   d1 = xadd (xscale beta d) r1
               in cgLoop st1 b delta_0 (cg_it + 1) d1 r1 delta_new1
                    (tr @ [(delta_new1, getX st1)])))
      else (MAX_ITER_REACHED, st, tr))"
  by pat_completeness auto
termination
  by (relation "measure (\<lambda>(st, b, delta_0, cg_it, d, r, delta_new, tr). numVariables st - cg_it)")
    (auto simp: numVariables_def)

definition cgSolveTrace ::
  "TimeStepPF \<Rightarrow> CGSolveState \<times> TimeStepPF \<times> (real \<times> VectorXr) list" where
  "cgSolveTrace st =
     (let (r, b) = calculateNegativeGradient st (replicate (numVariables st) 0) True;
          d = r;
          delta_new = squaredNorm r;
          delta_0 = delta_new
      in if converged delta_new delta_0 then (ALREADY_SOLVED, st, [(delta_new, getX st)])
         else cgLoop st b delta_0 0 d r delta_new [(delta_new, getX st)])"

definition cgSolve :: "TimeStepPF \<Rightarrow> CGSolveState \<times> TimeStepPF" where
  "cgSolve st = (case cgSolveTrace st of (s, st1, tr) \<Rightarrow> (s, st1))"

text \<open>
  The parts of one pass through the loop body, named so that the proofs can refer to them:
  the step length \<open>alpha\<close>, the state after \<^verbatim>\<open>x += alpha * d\<close>, the new residual (exact
  on a restart iteration, incremental otherwise) and the new direction.
\<close>

definition cgAlpha :: "TimeStepPF \<Rightarrow> VectorXr \<Rightarrow> real \<Rightarrow> real" where
  "cgAlpha st d delta_new = delta_new / dot d (matrixFreeLHS st d)"

definition cgAdvance :: "TimeStepPF \<Rightarrow> VectorXr \<Rightarrow> real \<Rightarrow> TimeStepPF" where
  "cgAdvance st d delta_new = st\<lparr>getX := xadd (getX st) (xscale (cgAlpha st d delta_new) d)\<rparr>"

definition cgResidual ::
  "TimeStepPF \<Rightarrow> VectorXr \<Rightarrow> nat \<Rightarrow> VectorXr \<Rightarrow> VectorXr \<Rightarrow> real \<Rightarrow> VectorXr" where
  "cgResidual st b cg_it d r delta_new =
     (if (cg_it + 1) mod restart_iterations = 0
      then fst (calculateNegativeGradient (cgAdvance st d delta_new) b False)
      else xsub r (xscale (cgAlpha st d delta_new) (matrixFreeLHS st d)))"

definition cgDirection ::
  "TimeStepPF \<Rightarrow> VectorXr \<Rightarrow> nat \<Rightarrow> VectorXr \<Rightarrow> VectorXr \<Rightarrow> real \<Rightarrow> VectorXr" where
  "cgDirection st b cg_it d r delta_new =
     (let r1 = cgResidual st b cg_it d r delta_new
      in xadd (xscale (squaredNorm r1 / delta_new) d) r1)"

definition initialResidual :: "TimeStepPF \<Rightarrow> VectorXr" where
  "initialResidual st = fst (calculateNegativeGradient st (replicate (numVariables st) 0) True)"

subsection \<open>The stages of a step\<close>

definition setPosition0 :: "TimeStepPF \<Rightarrow> nat \<Rightarrow> Vector3r \<Rightarrow> TimeStepPF" where
  "setPosition0 st i v = st\<lparr>getPosition := (getPosition st)(0 := (getPosition st 0)(i := v))\<rparr>"

definition initialGuessParticle :: "nat \<Rightarrow> TimeStepPF \<Rightarrow> TimeStepPF" where
  "initialGuessParticle i st =
     (let h = getTimeStepSize st;
          st1 = st\<lparr>getOldPosition := (getOldPosition st)(i := getPosition st 0 i)\<rparr>;
          newPos = vadd (vadd (getPosition st1 0 i) (vscale h (getVelocity st1 i)))
                     (vscale (h * h) (getAcceleration st1 i));
          st2 = setPosition0 st1 i newPos
      in st2\<lparr>getS := (getS st2)(i := newPos)\<rparr>)"

definition initialGuessForPositions :: "TimeStepPF \<Rightarrow> TimeStepPF" where
  "initialGuessForPositions st = fold initialGuessParticle [0..<numParticles st] st"

text \<open>\<^verbatim>\<open>x.Vec3Block(i) = v\<close>\<close>

definition setBlock :: "VectorXr \<Rightarrow> nat \<Rightarrow> Vector3r \<Rightarrow> VectorXr" where
  "setBlock x i v = x[3 * i := coeff v 0, 3 * i + 1 := coeff v 1, 3 * i + 2 := coeff v 2]"

definition countFluidNeighbors :: "TimeStepPF \<Rightarrow> nat \<Rightarrow> nat" where
  "countFluidNeighbors st i =
     fold (\<lambda>j nfn. if point_set_id (getNeighbor st i j) = 0 then nfn + 1 else nfn)
       [0..<numberOfNeighbors st i] 1"

definition prepareParticle :: "nat \<Rightarrow> TimeStepPF \<Rightarrow> TimeStepPF" where
  "prepareParticle i st =
     st\<lparr>getX := setBlock (getX st) i (getPosition st 0 i),
        getNumFluidNeighbors := (getNumFluidNeighbors st)(i := countFluidNeighbors st i)\<rparr>"

definition prepareSolve :: "TimeStepPF \<Rightarrow> TimeStepPF" where
  "prepareSolve st = fold prepareParticle [0..<numParticles st] st"

definition updateParticle :: "nat \<Rightarrow> TimeStepPF \<Rightarrow> TimeStepPF" where
  "updateParticle i st =
     (let h = getTimeStepSize st;
          st1 = setPosition0 st i (Vec3Block (getX st) i);
          vel = vdiv (vsub (getPosition st1 0 i) (getOldPosition st1 i)) h
      in st1\<lparr>getVelocity := (getVelocity st1)(i := vel)\<rparr>)"

definition updatePositionsAndVelocity :: "TimeStepPF \<Rightarrow> TimeStepPF" where
  "updatePositionsAndVelocity st = fold updateParticle [0..<numParticles st] st"

definition addAccellerationToVelocity :: "TimeStepPF \<Rightarrow> TimeStepPF" where
  "addAccellerationToVelocity st =
     fold (\<lambda>i s. s\<lparr>getVelocity := (getVelocity s)
                     (i := vadd (getVelocity s i)
                             (vscale (getTimeStepSize s) (getAcceleration s i)))\<rparr>)
       [0..<numParticles st] st"

text \<open>
  The loop of \<^verbatim>\<open>solvePDConstraints\<close> with \<open>n\<close> iterations left. The second component is
  not in the source: it counts the calls of \<^verbatim>\<open>cgSolve\<close>.
\<close>

fun pdLoop :: "nat \<Rightarrow> TimeStepPF \<Rightarrow> TimeStepPF \<times> nat" where
  "pdLoop 0 st = (st, 0)"
| "pdLoop (Suc n) st =
     (case cgSolve st of
        (s, st1) \<Rightarrow>
          if s = ALREADY_SOLVED then (st1, 1)
          else (case pdLoop n st1 of (st2, k) \<Rightarrow> (st2, k + 1)))"

definition solvePDConstraints :: "TimeStepPF \<Rightarrow> TimeStepPF" where
  "solvePDConstraints st =
     updatePositionsAndVelocity (fst (pdLoop (m_maxIterations st) (prepareSolve st)))"

text \<open>The predicted position \<open>position + h * velocity + (h * h) * acceleration\<close>.\<close>

definition predicted :: "TimeStepPF \<Rightarrow> nat \<Rightarrow> Vector3r" where
  "predicted st i =
     vadd (vadd (getPosition st 0 i) (vscale (getTimeStepSize st) (getVelocity st i)))
       (vscale (getTimeStepSize st * getTimeStepSize st) (getAcceleration st i))"

subsection \<open>Auxiliary notions for the proofs\<close>

text \<open>
  An accumulation pass is a sequence of block additions. A contribution is a pair of a
  particle index and the vector added to that particle's block; \<open>contribution k tv\<close> is
  what the pair adds to entry \<open>k\<close> of the accumulator.
\<close>

definition addContribution :: "nat \<times> Vector3r \<Rightarrow> VectorXr \<Rightarrow> VectorXr" where
  "addContribution tv acc = addBlock acc (fst tv) (snd tv)"

definition contribution :: "nat \<Rightarrow> nat \<times> Vector3r \<Rightarrow> real" where
  "contribution k tv = (if fst tv = k div 3 then coeff (snd tv) (k mod 3) else 0)"

definition isFluid :: "NeighborId \<Rightarrow> bool" where
  "isFluid nb \<longleftrightarrow> point_set_id nb = 0"

definition lhsContributions :: "TimeStepPF \<Rightarrow> VectorXr \<Rightarrow> nat \<Rightarrow> (nat \<times> Vector3r) list" where
  "lhsContributions st x i =
     (i, Vec3Block x i) #
     map (\<lambda>nb. (point_id nb, Vec3Block x (point_id nb))) (filter isFluid (getNeighbors st i))"

text \<open>
  How often particle \<open>i\<close> is listed as a fluid neighbour, and the diagonal coefficient the
  operator multiplies the block of \<open>i\<close> with.
\<close>

definition fluidOccurrences :: "TimeStepPF \<Rightarrow> nat \<Rightarrow> nat" where
  "fluidOccurrences st i =
     (\<Sum>p\<leftarrow>[0..<numParticles st].
        length (filter (\<lambda>nb. point_set_id nb = 0 \<and> point_id nb = i) (getNeighbors st p)))"

definition systemDiagonal :: "TimeStepPF \<Rightarrow> nat \<Rightarrow> real" where
  "systemDiagonal st i =
     getTimeStepSize st * getTimeStepSize st * getStiffness st
       * (1 + real (fluidOccurrences st i))
     + getMass st i"

subsection \<open>The solver without restarts\<close>

text \<open>
  The loop of \<^verbatim>\<open>cgSolve\<close> as the specification describes its cheap path: the residual is
  always updated by \<open>r -= alpha * (A * d)\<close> and never recomputed. It is not in the source; the
  refinement theorem compares it with \<open>cgLoop\<close>.
\<close>

function cgLoopIncremental ::
  "TimeStepPF \<Rightarrow> VectorXr \<Rightarrow> real \<Rightarrow> nat \<Rightarrow> VectorXr \<Rightarrow> VectorXr \<Rightarrow> real
     \<Rightarrow> (real \<times> VectorXr) list \<Rightarrow> CGSolveState \<times> TimeStepPF \<times> (real \<times> VectorXr) list" where
  "cgLoopIncremental st b delta_0 cg_it d r delta_new tr =
     (if cg_it < numVariables st then
        (let q = matrixFreeLHS st d;
             alpha = delta_new / dot d q;
             st1 = st\<lparr>getX := xadd (getX st) (xscale alpha d)\<rparr>;
             r1 = xsub r (xscale alpha q);
             delta_old = delta_new;
             delta_new1 = squaredNorm r1
         in if converged delta_new1 delta_0 then (CONVERGED, st1, tr @ [(delta_new1, getX st1)])
            else
              (let beta = delta_new1 / delta_old;
                   d1 = xadd (xscale beta d) r1
               in cgLoopIncremental st1 b delta_0 (cg_it + 1) d1 r1 delta_new1
                    (tr @ [(delta_new1, getX st1)])))
      else (MAX_ITER_REACHED, st, tr))"
  by pat_completeness auto
termination
  by (relation "measure (\<lambda>(st, b, delta_0, cg_it, d, r, delta_new, tr). numVariables st - cg_it)")
    (auto simp: numVariables_def)

definition cgSolveTraceIncremental ::
  "TimeStepPF \<Rightarrow> CGSolveState \<times> TimeStepPF \<times> (real \<times> VectorXr) list" where
  "cgSolveTraceIncremental st =
     (let (r, b) = calculateNegativeGradient st (replicate (numVariables st) 0) True;
          d = r;
          delta_new = squaredNorm r;
          delta_0 = delta_new
      in if converged delta_new delta_0 then (ALREADY_SOLVED, st, [(delta_new, getX st)])
         else cgLoopIncremental st b delta_0 0 d r delta_new [(delta_new, getX st)])"

subsection \<open>Residual and energy along a solve\<close>

text \<open>
  The property of the recorded trace that the squared residual norm does not grow from one
  iteration to the next, restart iterations excepted (entry \<open>k + 1\<close> is written by iteration
  \<open>cg_it = k\<close>, which restarts when \<open>(k + 1) mod 50 = 0\<close>); and the quadratic energy
  \<open>x \<cdot> (A x) / 2 - b \<cdot> x\<close> whose minimiser the solver approximates.
\<close>

definition residualNonIncreasing :: "(real \<times> VectorXr) list \<Rightarrow> bool" where
  "residualNonIncreasing tr \<longleftrightarrow>
     (\<forall>k. k + 1 < length tr \<and> (k + 1) mod restart_iterations \<noteq> 0
          \<longrightarrow> fst (tr ! (k + 1)) \<le> fst (tr ! k))"

definition energy :: "TimeStepPF \<Rightarrow> VectorXr \<Rightarrow> VectorXr \<Rightarrow> real" where
  "energy st b x = dot x (matrixFreeLHS st x) / 2 - dot b x"

definition energyNonIncreasing :: "TimeStepPF \<Rightarrow> VectorXr \<Rightarrow> (real \<times> VectorXr) list \<Rightarrow> bool" where
  "energyNonIncreasing st b tr =
     successively (\<lambda>e e'. energy st b (snd e') \<le> energy st b (snd e)) tr"

subsection \<open>The projection loop with the constraint value of the current positions\<close>

text \<open>
  The loop as the specification words it (section 4.3, step 3): a Newton-style iteration in
  which the constraint value tested and used in every pass is that of the current positions.
  It is not in the source; the source loop \<open>projectionLoop\<close> keeps the value in a variable
  that it recomputes only while \<^verbatim>\<open>it + 1 < max_steps\<close>.
\<close>

function projectionLoopSpec ::
  "TimeStepPF \<Rightarrow> nat \<Rightarrow> nat \<Rightarrow> Vector3r list \<Rightarrow> Vector3r list \<times> nat" where
  "projectionLoopSpec st i it p =
     (let C = calculateC st i p
      in if \<bar>C\<bar> > C_goal \<and> it < max_steps then
           (let g = calculateNablaC st i p;
                dg = squaredNormBlocks g
            in if dg = 0 then (p, it + 1)
               else projectionLoopSpec st i (it + 1)
                      (moveParticles st i (- C / (dg + regularization)) g p))
         else (p, it))"
  by pat_completeness auto
termination
  by (relation "measure (\<lambda>(st, i, it, p). max_steps - it)") auto

definition projectSpec :: "TimeStepPF \<Rightarrow> nat \<Rightarrow> Vector3r list \<times> nat" where
  "projectSpec st i = projectionLoopSpec st i 0 (gatherP st i)"

section \<open>Example configurations\<close>

text \<open>Concrete states at which the theorems below are instantiated.\<close>

definition density_example :: TimeStepPF where
  "density_example =
     \<lparr>numParticles = 1, getPosition = (\<lambda>s i. Vec3 1 0 0), getVelocity = (\<lambda>i. vzero),
      getAcceleration = (\<lambda>i. vzero), getMass = (\<lambda>i. 2), getDensity0 = 4, getStiffness = 1,
      getBoundaryPsi = (\<lambda>s i. 3),
      getNeighbors = (\<lambda>i. [\<lparr>point_set_id = 1, point_id = 0\<rparr>]),
      W_zero = 1, W = (\<lambda>v. 1 / 3), gradW = (\<lambda>v. vzero), getTimeStepSize = 1,
      getOldPosition = (\<lambda>i. vzero), getS = (\<lambda>i. vzero), getX = [0, 0, 0],
      getNumFluidNeighbors = (\<lambda>i. 1), m_maxIterations = 1\<rparr>"

definition residual_example :: TimeStepPF where
  "residual_example =
     \<lparr>numParticles = 2, getPosition = (\<lambda>s i. vzero), getVelocity = (\<lambda>i. vzero),
      getAcceleration = (\<lambda>i. vzero), getMass = (\<lambda>i. if i = 0 then 1 else 8),
      getDensity0 = 1000, getStiffness = 0, getBoundaryPsi = (\<lambda>s i. 0),
      getNeighbors = (\<lambda>i. []),
      W_zero = 1, W = (\<lambda>v. 0), gradW = (\<lambda>v. vzero), getTimeStepSize = 1,
      getOldPosition = (\<lambda>i. vzero), getS = (\<lambda>i. vzero),
      getX = [- 1, 0, 0, - (1 / 16), 0, 0],
      getNumFluidNeighbors = (\<lambda>i. 1), m_maxIterations = 1\<rparr>"

text \<open>
  A state on which the operator vanishes (stiffness \<open>-1\<close> cancels the mass), while the
  right-hand side does not: \<open>d \<cdot> q = 0\<close> in every iteration, so \<open>alpha\<close> is a quotient by
  zero (\<open>0\<close> in HOL, not finite in the source, where \<open>x\<close> and \<open>delta_new\<close> become NaN). In
  both readings no iteration passes the convergence test; only the returned status of this
  state is used below, not its \<open>x\<close>.
\<close>

definition breakdown_example :: TimeStepPF where
  "breakdown_example =
     \<lparr>numParticles = 1, getPosition = (\<lambda>s i. vzero), getVelocity = (\<lambda>i. vzero),
      getAcceleration = (\<lambda>i. vzero), getMass = (\<lambda>i. 1),
      getDensity0 = 1, getStiffness = - 1, getBoundaryPsi = (\<lambda>s i. 0),
      getNeighbors = (\<lambda>i. []),
      W_zero = 1, W = (\<lambda>v. 0), gradW = (\<lambda>v. vzero), getTimeStepSize = 1,
      getOldPosition = (\<lambda>i. vzero), getS = (\<lambda>i. Vec3 1 0 0),
      getX = [0, 0, 0],
      getNumFluidNeighbors = (\<lambda>i. 1), m_maxIterations = 1\<rparr>"

definition empty_example :: TimeStepPF where
  "empty_example =
     \<lparr>numParticles = 0, getPosition = (\<lambda>s i. vzero), getVelocity = (\<lambda>i. vzero),
      getAcceleration = (\<lambda>i. vzero), getMass = (\<lambda>i. 1),
      getDensity0 = 1000, getStiffness = 50000, getBoundaryPsi = (\<lambda>s i. 0),
      getNeighbors = (\<lambda>i. []),
      W_zero = 1, W = (\<lambda>v. 0), gradW = (\<lambda>v. vzero), getTimeStepSize = 1 / 1000,
      getOldPosition = (\<lambda>i. vzero), getS = (\<lambda>i. vzero), getX = [],
      getNumFluidNeighbors = (\<lambda>i. 1), m_maxIterations = 5\<rparr>"

definition euler_example :: TimeStepPF where
  "euler_example =
     \<lparr>numParticles = 2,
      getPosition = (\<lambda>s i. if i = 0 then Vec3 0 0 0 else Vec3 1 0 0),
      getVelocity = (\<lambda>i. if i = 0 then Vec3 1 0 0 else Vec3 0 1 0),
      getAcceleration = (\<lambda>i. Vec3 0 0 (- 10)), getMass = (\<lambda>i. 1),
      getDensity0 = 1000, getStiffness = 0, getBoundaryPsi = (\<lambda>s i. 0),
      getNeighbors = (\<lambda>i. [\<lparr>point_set_id = 0, point_id = 1 - i\<rparr>]),
      W_zero = 1, W = (\<lambda>v. 1), gradW = (\<lambda>v. vzero), getTimeStepSize = 1 / 2,
      getOldPosition = (\<lambda>i. vzero), getS = (\<lambda>i. vzero), getX = [0, 0, 0, 0, 0, 0],
      getNumFluidNeighbors = (\<lambda>i. 1), m_maxIterations = 5\<rparr>"

definition coupling_example :: TimeStepPF where
  "coupling_example =
     \<lparr>numParticles = 2,
      getPosition = (\<lambda>s i. vzero), getVelocity = (\<lambda>i. vzero),
      getAcceleration = (\<lambda>i. vzero), getMass = (\<lambda>i. if i = 0 then 1 else 2),
      getDensity0 = 1000, getStiffness = 4, getBoundaryPsi = (\<lambda>s i. 1),
      getNeighbors = (\<lambda>i. if i = 0
                            then [\<lparr>point_set_id = 0, point_id = 1\<rparr>,
                                  \<lparr>point_set_id = 1, point_id = 0\<rparr>]
                            else [\<lparr>point_set_id = 0, point_id = 0\<rparr>]),
      W_zero = 1, W = (\<lambda>v. 1), gradW = (\<lambda>v. vzero), getTimeStepSize = 1 / 2,
      getOldPosition = (\<lambda>i. vzero), getS = (\<lambda>i. vzero), getX = [0, 0, 0, 0, 0, 0],
      getNumFluidNeighbors = (\<lambda>i. 2), m_maxIterations = 5\<rparr>"

definition compression_example :: TimeStepPF where
  "compression_example =
     \<lparr>numParticles = 2,
      getPosition = (\<lambda>s i. if s = 0 then (if i = 0 then Vec3 0 0 0 else Vec3 10 0 0)
                           else (if i = 0 then Vec3 (1 / 8) 0 0 else Vec3 (41 / 4) 0 0)),
      getVelocity = (\<lambda>i. vzero), getAcceleration = (\<lambda>i. vzero),
      getMass = (\<lambda>i. if i = 0 then 1 else 15),
      getDensity0 = 16, getStiffness = 1,
      getBoundaryPsi = (\<lambda>s i. if i = 0 then 64 else 16),
      getNeighbors = (\<lambda>i. [\<lparr>point_set_id = 1, point_id = i\<rparr>]),
      W_zero = 1,
      W = (\<lambda>v. if squaredNorm3 v < 1 then 1 - squaredNorm3 v else 0),
      gradW = (\<lambda>v. if squaredNorm3 v < 1 then vscale (- 2) v else vzero),
      getTimeStepSize = 1,
      getOldPosition = (\<lambda>i. vzero),
      getS = (\<lambda>i. if i = 0 then Vec3 0 0 0 else Vec3 10 0 0),
      getX = [0, 0, 0, 0, 0, 0],
      getNumFluidNeighbors = (\<lambda>i. 0), m_maxIterations = 5\<rparr>"


definition compression_prepared :: TimeStepPF where
  "compression_prepared =
     compression_example\<lparr>getX := [0, 0, 0, 10, 0, 0],
                          getNumFluidNeighbors := (\<lambda>i. if i < 2 then 1 else 0)\<rparr>"

text \<open>
  One fluid particle at distance \<open>3117/6250\<close> from one boundary particle, with the tent
  kernel \<open>W v = max 0 (1 - |v|)\<close> and its gradient. The constraint value of the positions
  \<open>slow_p c\<close> is \<open>c\<close>, and a pass of the loop takes \<open>c\<close> to \<open>5/6 * c\<close>: the gradient is
  small against the regularisation, so the iteration converges slowly.
\<close>

definition slow_example :: TimeStepPF where
  "slow_example =
     \<lparr>numParticles = 1,
      getPosition = (\<lambda>s i. if s = 0 then Vec3 (- (3117 / 6250)) 0 0 else Vec3 0 0 0),
      getVelocity = (\<lambda>i. vzero), getAcceleration = (\<lambda>i. vzero),
      getMass = (\<lambda>i. 3999),
      getDensity0 = 4000, getStiffness = 1,
      getBoundaryPsi = (\<lambda>s i. 2),
      getNeighbors = (\<lambda>i. [\<lparr>point_set_id = 1, point_id = 0\<rparr>]),
      W_zero = 1,
      W = (\<lambda>v. if squaredNorm3 v < 1 then 1 - sqrt (squaredNorm3 v) else 0),
      gradW = (\<lambda>v. if 0 < squaredNorm3 v \<and> squaredNorm3 v < 1
                     then vscale (- 1 / sqrt (squaredNorm3 v)) v else vzero),
      getTimeStepSize = 1,
      getOldPosition = (\<lambda>i. vzero),
      getS = (\<lambda>i. Vec3 (- (3117 / 6250)) 0 0),
      getX = [0, 0, 0],
      getNumFluidNeighbors = (\<lambda>i. 0), m_maxIterations = 5\<rparr>"

definition slow_prepared :: TimeStepPF where
  "slow_prepared =
     slow_example\<lparr>getX := [- (3117 / 6250), 0, 0],
                   getNumFluidNeighbors := (\<lambda>i. if i < 1 then 1 else 0)\<rparr>"

definition slow_C :: "nat \<Rightarrow> real" where
  "slow_C n = 1 / 1562500 * (5 / 6) ^ n"

definition slow_p :: "real \<Rightarrow> Vector3r list" where
  "slow_p c = [Vec3 (- (1 / 2 - 2000 * c)) 0 0, Vec3 0 0 0]"

section \<open>The constraint value\<close>

lemma fold_add_upt:
  "fold (\<lambda>j d. d + f j) [0..<n] (a::real) = a + (\<Sum>j<n. f j)"
  by (induction n) simp_all

text \<open>
  Claim C3. In the local projection of \<^verbatim>\<open>matrixFreeRHS\<close>, for every particle \<open>i\<close> the
  constraint value is \<open>max (density / restDensity - 1) 0\<close>, where the density is
  \<open>mass i * W_zero\<close> (the kernel at distance zero) plus, for every fluid neighbour, its mass
  times \<open>W (p_i - p_j)\<close>, plus, for every boundary neighbour, its psi coefficient times
  \<open>W (p_i - p_j)\<close>; whenever \<open>density / restDensity - 1 < 0\<close> the value is exactly \<open>0\<close>.
\<close>

theorem calculateC_clamped_density:
  "calculateC st i p = max (density st i p / getDensity0 st - 1) 0 \<and>
   density st i p =
     getMass st i * W_zero st +
     (\<Sum>j<numberOfNeighbors st i.
        if point_set_id (getNeighbor st i j) = 0
        then getMass st (point_id (getNeighbor st i j)) * W st (vsub (p ! 0) (p ! (j + 1)))
        else getBoundaryPsi st (point_set_id (getNeighbor st i j)) (point_id (getNeighbor st i j))
               * W st (vsub (p ! 0) (p ! (j + 1)))) \<and>
   (density st i p / getDensity0 st - 1 < 0 \<longrightarrow> calculateC st i p = 0)"
proof -
  have c: "calculateC st i p = max (density st i p / getDensity0 st - 1) 0"
    by (simp add: calculateC_def density0_inv_def Let_def max_def)
  have d: "density st i p =
      getMass st i * W_zero st + (\<Sum>j<numberOfNeighbors st i. densityTerm st i p j)"
    unfolding density_def by (rule fold_add_upt)
  show ?thesis
    using c d by (simp add: densityTerm_def Let_def if_distrib cong: if_cong)
qed

theorem calculateC_clamped_density_witness:
  "density density_example 0 [vzero, Vec3 1 0 0] / getDensity0 density_example - 1 < 0 \<and>
   density density_example 0 [vzero, Vec3 1 0 0] = 3 \<and>
   calculateC density_example 0 [vzero, Vec3 1 0 0] = 0"
  using calculateC_clamped_density [of density_example 0 "[vzero, Vec3 1 0 0]"]
  by (simp add: density_example_def numberOfNeighbors_def getNeighbor_def vzero_def)

section \<open>The outcomes of cgSolve\<close>

lemma squaredNorm_nonneg: "0 \<le> squaredNorm v"
  unfolding squaredNorm_def by (rule sum_list_nonneg) auto

lemma converged_spelled: "converged a b \<longleftrightarrow> a < 1 / 10 ^ 10 \<or> a < 1 / 10 ^ 8 * b"
  by (simp add: converged_def tol_abs_def tol_rel_def)

lemma converged_initial: "0 \<le> d \<Longrightarrow> converged d d \<longleftrightarrow> d < tol_abs"
  unfolding converged_def tol_rel_def tol_abs_def
  by (auto simp: field_simps)

declare cgLoop.simps [simp del]

lemma numVariables_cgAdvance [simp]: "numVariables (cgAdvance st d dl) = numVariables st"
  by (simp add: cgAdvance_def numVariables_def)

lemma cgLoop_unfold:
  "cgLoop st b delta_0 cg_it d r delta_new tr =
     (if cg_it < numVariables st then
        (let st1 = cgAdvance st d delta_new;
             r1 = cgResidual st b cg_it d r delta_new;
             delta_new1 = squaredNorm r1
         in if converged delta_new1 delta_0 then (CONVERGED, st1, tr @ [(delta_new1, getX st1)])
            else cgLoop st1 b delta_0 (cg_it + 1) (cgDirection st b cg_it d r delta_new) r1
                   delta_new1 (tr @ [(delta_new1, getX st1)]))
      else (MAX_ITER_REACHED, st, tr))"
  by (subst cgLoop.simps)
    (simp add: Let_def cgAdvance_def cgAlpha_def cgResidual_def cgDirection_def)

lemma cgLoop_induct [case_names step]:
  assumes "\<And>st b delta_0 cg_it d r delta_new tr.
     (cg_it < numVariables st \<Longrightarrow>
      \<not> converged (squaredNorm (cgResidual st b cg_it d r delta_new)) delta_0 \<Longrightarrow>
      P (cgAdvance st d delta_new) b delta_0 (cg_it + 1) (cgDirection st b cg_it d r delta_new)
        (cgResidual st b cg_it d r delta_new) (squaredNorm (cgResidual st b cg_it d r delta_new))
        (tr @ [(squaredNorm (cgResidual st b cg_it d r delta_new),
                getX (cgAdvance st d delta_new))]))
     \<Longrightarrow> P st b delta_0 cg_it d r delta_new tr"
  shows "P st b delta_0 cg_it d r delta_new tr"
proof (induction st b delta_0 cg_it d r delta_new tr rule: cgLoop.induct)
  case (1 st b delta_0 cg_it d r delta_new tr)
  show ?case
  proof (rule assms)
    assume a: "cg_it < numVariables st"
      and c: "\<not> converged (squaredNorm (cgResidual st b cg_it d r delta_new)) delta_0"
    show "P (cgAdvance st d delta_new) b delta_0 (cg_it + 1) (cgDirection st b cg_it d r delta_new)
        (cgResidual st b cg_it d r delta_new) (squaredNorm (cgResidual st b cg_it d r delta_new))
        (tr @ [(squaredNorm (cgResidual st b cg_it d r delta_new),
                getX (cgAdvance st d delta_new))])"
      using c unfolding cgAdvance_def cgAlpha_def cgResidual_def cgDirection_def Let_def
      by (rule "1.IH" [OF a refl refl refl refl refl refl _ refl refl])
  qed
qed

lemma cgLoop_structure:
  "cgLoop st b delta_0 cg_it d r delta_new tr = (s, st1, tr1) \<Longrightarrow>
   \<exists>ys. tr1 = tr @ ys \<and> length ys \<le> numVariables st - cg_it \<and>
        (\<forall>e \<in> set (butlast ys). \<not> converged (fst e) delta_0) \<and>
        s \<noteq> ALREADY_SOLVED \<and>
        (s = CONVERGED \<longrightarrow> ys \<noteq> [] \<and> converged (fst (last ys)) delta_0) \<and>
        (s = MAX_ITER_REACHED \<longrightarrow>
           length ys = numVariables st - cg_it \<and> (\<forall>e \<in> set ys. \<not> converged (fst e) delta_0)) \<and>
        (ys = [] \<longrightarrow> st1 = st) \<and> (ys \<noteq> [] \<longrightarrow> getX st1 = snd (last ys))"
proof (induction st b delta_0 cg_it d r delta_new tr arbitrary: s st1 tr1 rule: cgLoop_induct)
  case (step st b delta_0 cg_it d r delta_new tr)
  define r1 where "r1 = cgResidual st b cg_it d r delta_new"
  define stA where "stA = cgAdvance st d delta_new"
  define e where "e = (squaredNorm r1, getX stA)"
  show ?case
  proof (cases "cg_it < numVariables st")
    case False
    with step.prems show ?thesis
      by (subst (asm) cgLoop_unfold) auto
  next
    case lt: True
    show ?thesis
    proof (cases "converged (squaredNorm r1) delta_0")
      case True
      with lt step.prems have "s = CONVERGED" "st1 = stA" "tr1 = tr @ [e]"
        by (subst (asm) cgLoop_unfold; simp add: Let_def r1_def stA_def e_def)+
      with True lt show ?thesis
        by (auto simp: e_def)
    next
      case nc: False
      with lt step.prems
      have rec: "cgLoop stA b delta_0 (cg_it + 1) (cgDirection st b cg_it d r delta_new) r1
              (squaredNorm r1) (tr @ [e]) = (s, st1, tr1)"
        by (subst (asm) cgLoop_unfold; simp add: Let_def r1_def stA_def e_def)
      from step.IH [OF lt nc [unfolded r1_def] rec [unfolded r1_def stA_def e_def]]
      obtain ys where ys: "tr1 = (tr @ [e]) @ ys"
        "length ys \<le> numVariables st - (cg_it + 1)"
        "\<forall>e \<in> set (butlast ys). \<not> converged (fst e) delta_0"
        "s \<noteq> ALREADY_SOLVED"
        "s = CONVERGED \<longrightarrow> ys \<noteq> [] \<and> converged (fst (last ys)) delta_0"
        "s = MAX_ITER_REACHED \<longrightarrow>
           length ys = numVariables st - (cg_it + 1) \<and> (\<forall>e \<in> set ys. \<not> converged (fst e) delta_0)"
        "ys = [] \<longrightarrow> st1 = stA" "ys \<noteq> [] \<longrightarrow> getX st1 = snd (last ys)"
        by (auto simp: r1_def stA_def e_def)
      have ne: "\<not> converged (fst e) delta_0" using nc by (simp add: e_def)
      have "tr1 = tr @ (e # ys)" using ys(1) by simp
      moreover have "length (e # ys) \<le> numVariables st - cg_it" using ys(2) lt by simp
      moreover have "\<forall>x \<in> set (butlast (e # ys)). \<not> converged (fst x) delta_0"
        using ys(3) ne by (auto)
      moreover have "s = CONVERGED \<longrightarrow> e # ys \<noteq> [] \<and> converged (fst (last (e # ys))) delta_0"
        using ys(5) by auto
      moreover have "s = MAX_ITER_REACHED \<longrightarrow>
           length (e # ys) = numVariables st - cg_it \<and>
           (\<forall>x \<in> set (e # ys). \<not> converged (fst x) delta_0)"
        using ys(6) ne lt by auto
      moreover have "getX st1 = snd (last (e # ys))"
        using ys(7,8) by (auto simp: e_def)
      ultimately show ?thesis using ys(4)
        by (intro exI [of _ "e # ys"]) simp
    qed
  qed
qed


lemma numVariables_le: "numVariables st \<le> 3 * numParticles st"
  by (simp add: numVariables_def)

lemma cgSolveTrace_cases:
  "cgSolveTrace st =
     (let delta = squaredNorm (initialResidual st)
      in if converged delta delta then (ALREADY_SOLVED, st, [(delta, getX st)])
         else cgLoop st (matrixFreeRHS st) delta 0 (initialResidual st) (initialResidual st) delta
                [(delta, getX st)])"
  by (simp add: cgSolveTrace_def initialResidual_def calculateNegativeGradient_def Let_def)

subsection \<open>The example configurations, evaluated\<close>

lemmas eval_defs = numVariables_def numberOfNeighbors_def getNeighbor_def
  addToAtomicReal_def addBlock_def lhsNeighbor_def lhsParticle_def lhsAccumulator_def combine_def
  matrixFreeLHS_def Vec3Block_def xadd_def xsub_def xscale_def dot_def squaredNorm_def
  vzero_def

lemma residual_example_fields:
  "numParticles residual_example = 2"
  "getMass residual_example = (\<lambda>i. if i = 0 then 1 else 8)"
  "getStiffness residual_example = 0"
  "getTimeStepSize residual_example = 1"
  "getNeighbors residual_example = (\<lambda>i. [])"
  "getS residual_example = (\<lambda>i. vzero)"
  "getX residual_example = [- 1, 0, 0, - (1 / 16), 0, 0]"
  by (simp_all add: residual_example_def)

lemma lhsParticle_getX [simp]: "lhsParticle (st\<lparr>getX := v\<rparr>) x = lhsParticle st x"
  by (rule ext)+ (simp add: lhsParticle_def numberOfNeighbors_def getNeighbor_def)

lemma matrixFreeLHS_getX [simp]: "matrixFreeLHS (st\<lparr>getX := v\<rparr>) x = matrixFreeLHS st x"
  by (simp add: matrixFreeLHS_def lhsAccumulator_def combine_def numVariables_def)

lemma lhs_residual:
  "matrixFreeLHS residual_example [a, b, c, d, e, f] = [a, b, c, 8 * d, 8 * e, 8 * f]"
  by (simp add: residual_example_fields eval_defs upt_conv_Cons Let_def)

lemma rhs_residual: "matrixFreeRHS residual_example = [0, 0, 0, 0, 0, 0]"
  by (simp add: matrixFreeRHS_def combine_def residual_example_fields upt_conv_Cons vzero_def)

lemma init_residual: "initialResidual residual_example = [1, 0, 0, 1 / 2, 0, 0]"
  by (simp add: initialResidual_def calculateNegativeGradient_def rhs_residual)
     (simp add: residual_example_fields lhs_residual xsub_def)

lemma trace_residual:
  "cgSolveTrace residual_example =
    (CONVERGED, residual_example\<lparr>getX := [0, 0, 0, 0, 0, 0]\<rparr>,
     [(5 / 4, [- 1, 0, 0, - (1 / 16), 0, 0]),
      (245 / 144, [- (7 / 12), 0, 0, 7 / 48, 0, 0]), (0, [0, 0, 0, 0, 0, 0])])"
  apply (simp add: cgSolveTrace_cases init_residual rhs_residual Let_def)
  apply (simp add: squaredNorm_def converged_def tol_abs_def tol_rel_def)
  apply (subst cgLoop_unfold)
  apply (simp add: numVariables_def cgAdvance_def cgAlpha_def cgResidual_def cgDirection_def Let_def restart_iterations_def
      residual_example_fields lhs_residual xadd_def xsub_def xscale_def dot_def squaredNorm_def converged_def tol_abs_def tol_rel_def)
  apply (subst cgLoop_unfold)
  apply (simp add: numVariables_def cgAdvance_def cgAlpha_def cgResidual_def cgDirection_def Let_def restart_iterations_def
      residual_example_fields lhs_residual xadd_def xsub_def xscale_def dot_def squaredNorm_def converged_def tol_abs_def tol_rel_def)
  done


declare projectionLoop.simps [simp del]

lemma density_example_fields:
  "numParticles density_example = 1"
  "getMass density_example = (\<lambda>i. 2)"
  "getStiffness density_example = 1"
  "getDensity0 density_example = 4"
  "getTimeStepSize density_example = 1"
  "getNeighbors density_example = (\<lambda>i. [\<lparr>point_set_id = 1, point_id = 0\<rparr>])"
  "getBoundaryPsi density_example = (\<lambda>s i. 3)"
  "getPosition density_example = (\<lambda>s i. Vec3 1 0 0)"
  "W_zero density_example = 1"
  "W density_example = (\<lambda>v. 1 / 3)"
  "gradW density_example = (\<lambda>v. vzero)"
  "getS density_example = (\<lambda>i. vzero)"
  "getX density_example = [0, 0, 0]"
  "getNumFluidNeighbors density_example = (\<lambda>i. 1)"
  by (simp_all add: density_example_def)

lemma project_density_example: "project density_example 0 = ([vzero, Vec3 1 0 0], 0)"
  by (subst project_def, subst projectionLoop.simps)
    (simp add: gatherP_def calculateC_def density_def densityTerm_def density0_inv_def C_goal_def
      numberOfNeighbors_def getNeighbor_def Vec3Block_def density_example_fields vzero_def Let_def)

lemma rhs_density_example: "matrixFreeRHS density_example = [0, 0, 0]"
  by (simp add: matrixFreeRHS_def combine_def rhsAccumulator_def rhsParticle_def rhsNeighbor_def
      project_density_example numVariables_def numberOfNeighbors_def getNeighbor_def
      addBlock_def addToAtomicReal_def density_example_fields upt_conv_Cons vzero_def Let_def)

lemma lhs_density_example: "matrixFreeLHS density_example [a, b, c] = [3 * a, 3 * b, 3 * c]"
  by (simp add: density_example_fields eval_defs upt_conv_Cons Let_def)

lemma trace_density_example:
  "cgSolveTrace density_example = (ALREADY_SOLVED, density_example, [(0, [0, 0, 0])])"
  by (simp add: cgSolveTrace_cases initialResidual_def calculateNegativeGradient_def
      rhs_density_example density_example_fields lhs_density_example xsub_def squaredNorm_def
      converged_def tol_abs_def Let_def)

lemma breakdown_example_fields:
  "numParticles breakdown_example = 1"
  "getMass breakdown_example = (\<lambda>i. 1)"
  "getStiffness breakdown_example = - 1"
  "getDensity0 breakdown_example = 1"
  "getTimeStepSize breakdown_example = 1"
  "getNeighbors breakdown_example = (\<lambda>i. [])"
  "W_zero breakdown_example = 1"
  "getS breakdown_example = (\<lambda>i. Vec3 1 0 0)"
  "getX breakdown_example = [0, 0, 0]"
  by (simp_all add: breakdown_example_def)

lemma project_breakdown_example: "project breakdown_example 0 = ([vzero], 0)"
  by (subst project_def, subst projectionLoop.simps)
    (simp add: gatherP_def calculateC_def density_def densityTerm_def density0_inv_def C_goal_def
      numberOfNeighbors_def getNeighbor_def Vec3Block_def breakdown_example_fields vzero_def Let_def)

lemma rhs_breakdown_example: "matrixFreeRHS breakdown_example = [1, 0, 0]"
  by (simp add: matrixFreeRHS_def combine_def rhsAccumulator_def rhsParticle_def rhsNeighbor_def
      project_breakdown_example numVariables_def numberOfNeighbors_def getNeighbor_def
      addBlock_def addToAtomicReal_def breakdown_example_fields upt_conv_Cons vzero_def Let_def)

lemma lhs_breakdown_example: "matrixFreeLHS breakdown_example [a, b, c] = [0, 0, 0]"
  by (simp add: breakdown_example_fields eval_defs upt_conv_Cons Let_def)

lemmas cg_eval = numVariables_def cgAdvance_def cgAlpha_def cgResidual_def cgDirection_def Let_def
  restart_iterations_def xadd_def xsub_def xscale_def dot_def squaredNorm_def converged_def
  tol_abs_def tol_rel_def

lemma trace_breakdown_example:
  "cgSolveTrace breakdown_example =
     (MAX_ITER_REACHED, breakdown_example\<lparr>getX := [0, 0, 0]\<rparr>,
      [(1, [0, 0, 0]), (1, [0, 0, 0]), (1, [0, 0, 0]), (1, [0, 0, 0])])"
  apply (simp add: cgSolveTrace_cases initialResidual_def calculateNegativeGradient_def
      rhs_breakdown_example lhs_breakdown_example breakdown_example_fields cg_eval)
  apply (subst cgLoop_unfold, simp add: cg_eval breakdown_example_fields lhs_breakdown_example)+
  done


subsection \<open>Iteration bound and outcomes\<close>

text \<open>
  Claim C5. \<^verbatim>\<open>cgSolve\<close> performs at most \<open>3 * particleCount\<close> iterations (the recorded
  trace has one entry for the initial residual and one per iteration); the convergence test
  (squared residual norm below \<open>1e-10\<close>, or below \<open>1e-8\<close> times the initial squared norm) is
  applied before the loop, returning \<^verbatim>\<open>ALREADY_SOLVED\<close> with the state untouched, and after
  every iteration, returning \<^verbatim>\<open>CONVERGED\<close> at the first iteration that passes it; if no
  iteration passes it, the result is \<^verbatim>\<open>MAX_ITER_REACHED\<close> after \<open>numVariables\<close> iterations,
  and in every case the returned state holds the \<open>x\<close> of the last iteration.
\<close>

theorem cgSolve_outcomes:
  assumes "cgSolveTrace st = (s, st1, tr)"
  shows "cgSolve st = (s, st1) \<and>
         (\<forall>a b. converged a b \<longleftrightarrow> a < 1 / 10 ^ 10 \<or> a < 1 / 10 ^ 8 * b) \<and>
         tr \<noteq> [] \<and> hd tr = (squaredNorm (initialResidual st), getX st) \<and>
         length tr - 1 \<le> 3 * numParticles st \<and>
         (s = ALREADY_SOLVED \<longleftrightarrow> converged (fst (hd tr)) (fst (hd tr))) \<and>
         (s = ALREADY_SOLVED \<longrightarrow> length tr = 1 \<and> st1 = st) \<and>
         (\<forall>k. 0 < k \<and> k + 1 < length tr \<longrightarrow> \<not> converged (fst (tr ! k)) (fst (hd tr))) \<and>
         (s = CONVERGED \<longleftrightarrow>
            \<not> converged (fst (hd tr)) (fst (hd tr)) \<and> 1 < length tr \<and>
            converged (fst (last tr)) (fst (hd tr))) \<and>
         (s = MAX_ITER_REACHED \<longleftrightarrow> (\<forall>e \<in> set tr. \<not> converged (fst e) (fst (hd tr)))) \<and>
         (s = MAX_ITER_REACHED \<longrightarrow> length tr - 1 = numVariables st) \<and>
         getX st1 = snd (last tr)"
proof -
  define delta where "delta = squaredNorm (initialResidual st)"
  define e0 where "e0 = (delta, getX st)"
  have solve: "cgSolve st = (s, st1)"
    using assms by (simp add: cgSolve_def)
  show ?thesis
  proof (cases "converged delta delta")
    case True
    with assms have "s = ALREADY_SOLVED" "st1 = st" "tr = [e0]"
      by (auto simp: cgSolveTrace_cases Let_def delta_def e0_def)
    with True solve show ?thesis
      by (simp add: e0_def delta_def converged_spelled)
  next
    case nc: False
    with assms have loop: "cgLoop st (matrixFreeRHS st) delta 0 (initialResidual st)
        (initialResidual st) delta [e0] = (s, st1, tr)"
      by (simp add: cgSolveTrace_cases Let_def delta_def e0_def)
    from cgLoop_structure [OF loop]
    obtain ys where ys: "tr = e0 # ys"
        "length ys \<le> numVariables st"
        "\<forall>e \<in> set (butlast ys). \<not> converged (fst e) delta"
        "s \<noteq> ALREADY_SOLVED"
        "s = CONVERGED \<longrightarrow> ys \<noteq> [] \<and> converged (fst (last ys)) delta"
        "s = MAX_ITER_REACHED \<longrightarrow>
           length ys = numVariables st \<and> (\<forall>e \<in> set ys. \<not> converged (fst e) delta)"
        "ys = [] \<longrightarrow> st1 = st" "ys \<noteq> [] \<longrightarrow> getX st1 = snd (last ys)"
      by auto
    have hd: "fst (hd tr) = delta" "hd tr = (delta, getX st)"
      using ys(1) by (simp_all add: e0_def)
    have len: "length tr - 1 \<le> 3 * numParticles st"
      using ys(1,2) numVariables_le [of st] by simp
    have mid: "\<forall>k. 0 < k \<and> k + 1 < length tr \<longrightarrow> \<not> converged (fst (tr ! k)) delta"
    proof (intro allI impI)
      fix k assume k: "0 < k \<and> k + 1 < length tr"
      then obtain j where j: "k = Suc j" by (cases k) auto
      with k ys(1) have "j < length (butlast ys)" by simp
      then have "butlast ys ! j \<in> set (butlast ys)" by (rule nth_mem)
      moreover have "butlast ys ! j = ys ! j"
        using \<open>j < length (butlast ys)\<close> by (simp add: nth_butlast)
      ultimately show "\<not> converged (fst (tr ! k)) delta"
        using ys(1,3) j by auto
    qed
    have conv: "s = CONVERGED \<longleftrightarrow> 1 < length tr \<and> converged (fst (last tr)) delta"
    proof
      assume "s = CONVERGED"
      with ys(1,5) show "1 < length tr \<and> converged (fst (last tr)) delta" by auto
    next
      assume a: "1 < length tr \<and> converged (fst (last tr)) delta"
      then have "ys \<noteq> []" using ys(1) by auto
      with a ys(1) have "converged (fst (last ys)) delta" by simp
      moreover have "last ys \<in> set ys" using \<open>ys \<noteq> []\<close> by simp
      ultimately have "s \<noteq> MAX_ITER_REACHED" using ys(6) by auto
      with ys(4) show "s = CONVERGED" by (cases s) auto
    qed
    have maxit: "s = MAX_ITER_REACHED \<longleftrightarrow> (\<forall>e \<in> set tr. \<not> converged (fst e) delta)"
    proof
      assume "s = MAX_ITER_REACHED"
      with ys(1,6) nc show "\<forall>e \<in> set tr. \<not> converged (fst e) delta"
        by (auto simp: e0_def)
    next
      assume a: "\<forall>e \<in> set tr. \<not> converged (fst e) delta"
      have "s \<noteq> CONVERGED"
      proof
        assume "s = CONVERGED"
        with ys(5) have "ys \<noteq> []" "converged (fst (last ys)) delta" by auto
        moreover from this have "last ys \<in> set tr" using ys(1) by simp
        ultimately show False using a by auto
      qed
      with ys(4) show "s = MAX_ITER_REACHED" by (cases s) auto
    qed
    have last: "getX st1 = snd (last tr)"
      using ys(1,7,8) by (cases "ys = []") (auto simp: e0_def)
    have "tr \<noteq> []" using ys(1) by simp
    moreover have "s = MAX_ITER_REACHED \<longrightarrow> length tr - 1 = numVariables st"
      using ys(1,6) by simp
    ultimately show ?thesis
      using solve hd len mid conv maxit last nc ys(4)
      by (simp add: delta_def converged_spelled)
  qed
qed


theorem cgSolve_outcomes_witness:
  "cgSolve density_example = (ALREADY_SOLVED, density_example) \<and>
   cgSolve residual_example = (CONVERGED, residual_example\<lparr>getX := [0, 0, 0, 0, 0, 0]\<rparr>) \<and>
   fst (cgSolve breakdown_example) = MAX_ITER_REACHED \<and>
   numVariables breakdown_example = 3"
  using cgSolve_outcomes [OF trace_density_example, THEN conjunct1]
    cgSolve_outcomes [OF trace_residual, THEN conjunct1]
    cgSolve_outcomes [OF trace_breakdown_example, THEN conjunct1]
  by (simp add: numVariables_def breakdown_example_fields)

text \<open>
  Claim C10. \<^verbatim>\<open>cgSolve\<close> returns \<^verbatim>\<open>ALREADY_SOLVED\<close> if and only if the initial squared
  residual norm is below the absolute threshold \<open>1e-10\<close>: \<open>delta_0\<close> is the initial
  \<open>delta_new\<close>, a squared norm, so the relative test \<open>delta_new < 1e-8 * delta_0\<close> never
  holds on its own.
\<close>

theorem already_solved_iff_absolute:
  "fst (cgSolve st) = ALREADY_SOLVED \<longleftrightarrow> squaredNorm (initialResidual st) < 1 / 10 ^ 10"
proof -
  obtain s st1 tr where t: "cgSolveTrace st = (s, st1, tr)"
    by (cases "cgSolveTrace st") auto
  define delta where "delta = squaredNorm (initialResidual st)"
  have s: "fst (cgSolve st) = s" using t by (simp add: cgSolve_def)
  have nn: "0 \<le> delta" by (simp add: delta_def squaredNorm_nonneg)
  show ?thesis
  proof (cases "converged delta delta")
    case True
    with t have "s = ALREADY_SOLVED"
      by (auto simp: cgSolveTrace_cases Let_def delta_def)
    with True s converged_initial [OF nn] show ?thesis
      by (simp add: delta_def tol_abs_def)
  next
    case nc: False
    with t have loop: "cgLoop st (matrixFreeRHS st) delta 0 (initialResidual st)
        (initialResidual st) delta [(delta, getX st)] = (s, st1, tr)"
      by (simp add: cgSolveTrace_cases Let_def delta_def)
    from cgLoop_structure [OF loop] have "s \<noteq> ALREADY_SOLVED" by auto
    with nc s converged_initial [OF nn] show ?thesis
      by (simp add: delta_def tol_abs_def)
  qed
qed


theorem already_solved_iff_absolute_witness:
  "fst (cgSolve density_example) = ALREADY_SOLVED \<and>
   squaredNorm (initialResidual density_example) < 1 / 10 ^ 10 \<and>
   fst (cgSolve residual_example) = CONVERGED \<and>
   \<not> squaredNorm (initialResidual residual_example) < 1 / 10 ^ 10"
  using already_solved_iff_absolute [of density_example]
    already_solved_iff_absolute [of residual_example]
  by (simp add: cgSolve_def trace_density_example trace_residual)

section \<open>The empty particle set\<close>

lemma fold_frame:
  assumes "\<And>i s. g (f i s) = g s"
  shows "g (fold f xs s) = g s"
  by (induction xs arbitrary: s) (simp_all add: assms)

lemma squaredNorm_Nil [simp]: "squaredNorm [] = 0"
  by (simp add: squaredNorm_def)

lemma empty_combine: "numParticles st = 0 \<Longrightarrow> combine st acc v = []"
  by (simp add: combine_def)

lemma empty_initialResidual: "numParticles st = 0 \<Longrightarrow> initialResidual st = []"
  by (simp add: initialResidual_def calculateNegativeGradient_def matrixFreeLHS_def
      matrixFreeRHS_def empty_combine xsub_def)

lemma empty_cgSolveTrace:
  "numParticles st = 0 \<Longrightarrow> cgSolveTrace st = (ALREADY_SOLVED, st, [(0, getX st)])"
  by (simp add: cgSolveTrace_cases empty_initialResidual converged_def tol_abs_def)

lemma empty_pdLoop:
  "numParticles st = 0 \<Longrightarrow> pdLoop n st = (st, min 1 n)"
  by (cases n) (simp_all add: cgSolve_def empty_cgSolveTrace)

text \<open>
  Claim C9. For an empty particle set the implicit solve is a no-op: every per-particle loop
  runs over the empty index range, the initial squared residual of \<^verbatim>\<open>cgSolve\<close> is \<open>0\<close> so it
  returns \<^verbatim>\<open>ALREADY_SOLVED\<close>, the outer loop stops after its first solve (it makes
  \<open>min 1 m_maxIterations\<close> calls), and the state, whatever particle data it holds, is returned
  as it was.
\<close>

theorem empty_particle_set_no_op:
  assumes "numParticles st = 0"
  shows "[0..<numParticles st] = [] \<and>
         initialGuessForPositions st = st \<and>
         prepareSolve st = st \<and>
         matrixFreeLHS st x = [] \<and> matrixFreeRHS st = [] \<and>
         squaredNorm (initialResidual st) = 0 \<and>
         cgSolveTrace st = (ALREADY_SOLVED, st, [(0, getX st)]) \<and>
         cgSolve st = (ALREADY_SOLVED, st) \<and>
         pdLoop (m_maxIterations st) (prepareSolve st) = (st, min 1 (m_maxIterations st)) \<and>
         updatePositionsAndVelocity st = st \<and>
         solvePDConstraints st = st"
  using assms
  by (simp add: initialGuessForPositions_def prepareSolve_def matrixFreeLHS_def matrixFreeRHS_def
      empty_combine empty_initialResidual empty_cgSolveTrace cgSolve_def empty_pdLoop
      updatePositionsAndVelocity_def solvePDConstraints_def)

theorem empty_particle_set_no_op_witness:
  "numParticles empty_example = 0 \<and>
   cgSolve empty_example = (ALREADY_SOLVED, empty_example) \<and>
   pdLoop 5 (prepareSolve empty_example) = (empty_example, 1) \<and>
   solvePDConstraints empty_example = empty_example"
proof -
  have n: "numParticles empty_example = 0" by (simp add: empty_example_def)
  have m: "m_maxIterations empty_example = 5" by (simp add: empty_example_def)
  show ?thesis
    using empty_particle_set_no_op [OF n, of "[]"] n m by auto
qed

section \<open>The stages of a step\<close>

subsection \<open>The per-particle loops in closed form\<close>

lemma initialGuess_closed:
  "fold initialGuessParticle [0..<n] st =
     st\<lparr>getPosition := (\<lambda>s. if s = 0 then (\<lambda>i. if i < n then predicted st i else getPosition st 0 i)
                             else getPosition st s),
        getOldPosition := (\<lambda>i. if i < n then getPosition st 0 i else getOldPosition st i),
        getS := (\<lambda>i. if i < n then predicted st i else getS st i)\<rparr>"
proof (induction n)
  case 0
  have "(\<lambda>s. if s = 0 then (\<lambda>i. if i < 0 then predicted st i else getPosition st 0 i)
             else getPosition st s) = getPosition st"
    by (auto simp: fun_eq_iff)
  then show ?case by simp
next
  case (Suc n)
  have "fold initialGuessParticle [0..<Suc n] st =
      initialGuessParticle n (fold initialGuessParticle [0..<n] st)"
    by simp
  also have "\<dots> =
     st\<lparr>getPosition := (\<lambda>s. if s = 0 then (\<lambda>i. if i < Suc n then predicted st i
                                               else getPosition st 0 i)
                             else getPosition st s),
        getOldPosition := (\<lambda>i. if i < Suc n then getPosition st 0 i else getOldPosition st i),
        getS := (\<lambda>i. if i < Suc n then predicted st i else getS st i)\<rparr>"
    unfolding Suc
    by (rule TimeStepPF.equality)
      (auto simp: initialGuessParticle_def setPosition0_def predicted_def Let_def fun_eq_iff
        less_Suc_eq)
  finally show ?case .
qed

lemma updatePositions_closed:
  "fold updateParticle [0..<n] st =
     st\<lparr>getPosition := (\<lambda>s. if s = 0 then (\<lambda>i. if i < n then Vec3Block (getX st) i else getPosition st 0 i)
                             else getPosition st s),
        getVelocity := (\<lambda>i. if i < n
                             then vdiv (vsub (Vec3Block (getX st) i) (getOldPosition st i))
                                    (getTimeStepSize st)
                             else getVelocity st i)\<rparr>"
proof (induction n)
  case 0
  have "(\<lambda>s. if s = 0 then (\<lambda>i. if i < 0 then Vec3Block (getX st) i else getPosition st 0 i)
             else getPosition st s) = getPosition st"
    by (auto simp: fun_eq_iff)
  then show ?case by simp
next
  case (Suc n)
  have "fold updateParticle [0..<Suc n] st = updateParticle n (fold updateParticle [0..<n] st)"
    by simp
  also have "\<dots> =
     st\<lparr>getPosition := (\<lambda>s. if s = 0 then (\<lambda>i. if i < Suc n then Vec3Block (getX st) i
                                               else getPosition st 0 i)
                             else getPosition st s),
        getVelocity := (\<lambda>i. if i < Suc n
                             then vdiv (vsub (Vec3Block (getX st) i) (getOldPosition st i))
                                    (getTimeStepSize st)
                             else getVelocity st i)\<rparr>"
    unfolding Suc
    by (rule TimeStepPF.equality)
      (auto simp: updateParticle_def setPosition0_def Let_def fun_eq_iff less_Suc_eq)
  finally show ?case .
qed

lemma cgLoop_frame:
  "cgLoop st b delta_0 cg_it d r delta_new tr = (s, st1, tr1) \<Longrightarrow> st1 = st\<lparr>getX := getX st1\<rparr>"
proof (induction st b delta_0 cg_it d r delta_new tr arbitrary: s st1 tr1 rule: cgLoop_induct)
  case (step st b delta_0 cg_it d r delta_new tr)
  show ?case
  proof (cases "cg_it < numVariables st")
    case False
    with step.prems have "st1 = st" by (subst (asm) cgLoop_unfold) auto
    then show ?thesis by simp
  next
    case lt: True
    show ?thesis
    proof (cases "converged (squaredNorm (cgResidual st b cg_it d r delta_new)) delta_0")
      case True
      with lt step.prems have "st1 = cgAdvance st d delta_new"
        by (subst (asm) cgLoop_unfold) (auto simp: Let_def)
      then show ?thesis by (simp add: cgAdvance_def)
    next
      case nc: False
      with lt step.prems have "st1 = (cgAdvance st d delta_new)\<lparr>getX := getX st1\<rparr>"
        by (subst (asm) cgLoop_unfold) (auto simp: Let_def dest: step.IH [OF lt])
      then have "st1 = st\<lparr>getX := getX st1\<rparr>" by (simp add: cgAdvance_def)
      then show ?thesis .
    qed
  qed
qed

lemma cgSolve_frame: "snd (cgSolve st) = st\<lparr>getX := getX (snd (cgSolve st))\<rparr>"
proof -
  obtain s st1 tr where t: "cgSolveTrace st = (s, st1, tr)"
    by (cases "cgSolveTrace st") auto
  have "st1 = st\<lparr>getX := getX st1\<rparr>"
  proof (cases "converged (squaredNorm (initialResidual st)) (squaredNorm (initialResidual st))")
    case True
    with t have "st1 = st" by (auto simp: cgSolveTrace_cases Let_def)
    then show ?thesis by simp
  next
    case False
    with t show ?thesis
      by (auto simp: cgSolveTrace_cases Let_def dest: cgLoop_frame)
  qed
  with t show ?thesis by (simp add: cgSolve_def)
qed

lemma pdLoop_frame: "fst (pdLoop n st) = st\<lparr>getX := getX (fst (pdLoop n st))\<rparr>"
proof (induction n arbitrary: st)
  case 0
  show ?case by simp
next
  case (Suc n)
  obtain s st1 where c: "cgSolve st = (s, st1)" by (cases "cgSolve st") auto
  with cgSolve_frame [of st] have v: "st1 = st\<lparr>getX := getX st1\<rparr>" by simp
  have w: "fst (pdLoop n st1) = st1\<lparr>getX := getX (fst (pdLoop n st1))\<rparr>" by (rule Suc)
  have "fst (pdLoop n st1) = st\<lparr>getX := getX (fst (pdLoop n st1))\<rparr>"
    by (subst w, subst v) simp
  with c v show ?case
    by (auto simp: split_beta)
qed


lemma countFluidNeighbors_frame [simp]:
  "countFluidNeighbors (st\<lparr>getX := v, getNumFluidNeighbors := w\<rparr>) i = countFluidNeighbors st i"
  by (simp add: countFluidNeighbors_def numberOfNeighbors_def getNeighbor_def)

lemma prepareSolve_closed:
  "fold prepareParticle [0..<n] st =
     st\<lparr>getX := fold (\<lambda>i x. setBlock x i (getPosition st 0 i)) [0..<n] (getX st),
        getNumFluidNeighbors :=
          (\<lambda>i. if i < n then countFluidNeighbors st i else getNumFluidNeighbors st i)\<rparr>"
proof (induction n)
  case 0
  show ?case by simp
next
  case (Suc n)
  have "fold prepareParticle [0..<Suc n] st = prepareParticle n (fold prepareParticle [0..<n] st)"
    by simp
  also have "\<dots> =
     st\<lparr>getX := fold (\<lambda>i x. setBlock x i (getPosition st 0 i)) [0..<Suc n] (getX st),
        getNumFluidNeighbors :=
          (\<lambda>i. if i < Suc n then countFluidNeighbors st i else getNumFluidNeighbors st i)\<rparr>"
    unfolding Suc
    by (rule TimeStepPF.equality) (auto simp: prepareParticle_def fun_eq_iff less_Suc_eq)
  finally show ?case .
qed

lemma length_setBlock [simp]: "length (setBlock x i v) = length x"
  by (simp add: setBlock_def)

lemma nth_setBlock:
  assumes a: "3 * i + 2 < length x"
  shows "setBlock x i v ! k = (if k div 3 = i then coeff v (k mod 3) else x ! k)"
proof -
  obtain p q r where v: "v = Vec3 p q r" by (cases v)
  have "k div 3 \<noteq> i \<or> k = 3 * i \<or> k = 3 * i + 1 \<or> k = 3 * i + 2"
    by presburger
  then consider "k = 3 * i" | "k = 3 * i + 1" | "k = 3 * i + 2" | "k div 3 \<noteq> i"
    by blast
  then show ?thesis
  proof cases
    case 1
    then show ?thesis using a by (simp add: setBlock_def v)
  next
    case 2
    have "(3 * i + 1) div 3 = i" "(3 * i + 1) mod 3 = 1" by presburger+
    with 2 show ?thesis using a by (simp add: setBlock_def v)
  next
    case 3
    have "(3 * i + 2) div 3 = i" "(3 * i + 2) mod 3 = 2" by presburger+
    with 3 show ?thesis using a by (simp add: setBlock_def v)
  next
    case 4
    then have "k \<noteq> 3 * i" "k \<noteq> 3 * i + 1" "k \<noteq> 3 * i + 2" by auto
    with 4 show ?thesis by (simp add: setBlock_def)
  qed
qed


lemma length_fold_setBlock [simp]:
  "length (fold (\<lambda>i x. setBlock x i (f i)) [0..<n] x) = length x"
  by (induction n) simp_all

lemma nth_fold_setBlock:
  "3 * n \<le> length x \<Longrightarrow>
   fold (\<lambda>i x. setBlock x i (f i)) [0..<n] x ! k =
     (if k < 3 * n then coeff (f (k div 3)) (k mod 3) else x ! k)"
proof (induction n)
  case 0
  show ?case by simp
next
  case (Suc n)
  then have le: "3 * n \<le> length x" and blk: "3 * n + 2 < length x" by simp_all
  define y where "y = fold (\<lambda>i x. setBlock x i (f i)) [0..<n] x"
  have y: "y ! k = (if k < 3 * n then coeff (f (k div 3)) (k mod 3) else x ! k)"
    unfolding y_def by (rule Suc.IH [OF le])
  have ly: "3 * n + 2 < length y" using blk by (simp add: y_def)
  have step: "fold (\<lambda>i x. setBlock x i (f i)) [0..<Suc n] x = setBlock y n (f n)"
    by (simp add: y_def)
  have dv: "k div 3 = n \<longleftrightarrow> 3 * n \<le> k \<and> k < 3 * Suc n" by presburger
  have lt: "k < 3 * n \<Longrightarrow> k div 3 \<noteq> n" by presburger
  show ?case
    unfolding step nth_setBlock [OF ly] y
    using dv lt by auto
qed

lemma prepareSolve_X:
  assumes "length (getX st) = 3 * numParticles st" "i < numParticles st" "c < 3"
  shows "getX (prepareSolve st) ! (3 * i + c) = coeff (getPosition st 0 i) c"
proof -
  have lt: "3 * i + c < 3 * numParticles st" using assms(2,3) by simp
  have dm: "(3 * i + c) div 3 = i" "(3 * i + c) mod 3 = c" using assms(3) by presburger+
  show ?thesis
    using assms(1) lt dm by (simp add: prepareSolve_def prepareSolve_closed nth_fold_setBlock)
qed

lemma Vec3Block_coeff: "c < 3 \<Longrightarrow> coeff (Vec3Block x i) c = x ! (3 * i + c)"
proof -
  assume "c < 3"
  then consider "c = 0" | "c = 1" | "c = 2" by linarith
  then show ?thesis by cases (simp_all add: Vec3Block_def)
qed

lemma Vector3r_eqI: "(\<And>c. c < 3 \<Longrightarrow> coeff u c = coeff v c) \<Longrightarrow> u = v"
proof -
  assume a: "\<And>c. c < 3 \<Longrightarrow> coeff u c = coeff v c"
  obtain p q r where u: "u = Vec3 p q r" by (cases u)
  obtain p' q' r' where v: "v = Vec3 p' q' r'" by (cases v)
  from a [of 0] a [of 1] a [of 2] show ?thesis by (simp add: u v)
qed

lemma prepareSolve_block:
  assumes "length (getX st) = 3 * numParticles st" "i < numParticles st"
  shows "Vec3Block (getX (prepareSolve st)) i = getPosition st 0 i"
  by (rule Vector3r_eqI) (simp add: Vec3Block_coeff prepareSolve_X [OF assms])

lemma prepareSolve_frame:
  "prepareSolve st = st\<lparr>getX := getX (prepareSolve st),
                         getNumFluidNeighbors := getNumFluidNeighbors (prepareSolve st)\<rparr>"
  by (simp add: prepareSolve_def prepareSolve_closed)

lemma length_prepareSolve [simp]: "length (getX (prepareSolve st)) = length (getX st)"
  by (simp add: prepareSolve_def prepareSolve_closed)

text \<open>concat of blocks of three\<close>

lemma length_concat_blocks [simp]:
  "length (concat (map (\<lambda>i. map (g i) [0..<3]) [0..<n])) = 3 * n"
  by (induction n) simp_all

lemma nth_concat_blocks:
  "i < n \<Longrightarrow> c < 3 \<Longrightarrow> concat (map (\<lambda>i. map (g i) [0..<3]) [0..<n]) ! (3 * i + c) = g i c"
proof (induction n)
  case 0
  then show ?case by simp
next
  case (Suc n)
  show ?case
  proof (cases "i < n")
    case True
    then have "3 * i + c < 3 * n" using Suc.prems(2) by simp
    then show ?thesis using Suc.IH [OF True Suc.prems(2)] by (simp add: nth_append)
  next
    case False
    then have "i = n" using Suc.prems(1) by simp
    then show ?thesis using Suc.prems(2) by (simp add: nth_append)
  qed
qed

lemma length_combine [simp]: "length (combine st acc v) = 3 * numParticles st"
  by (simp add: combine_def)

lemma nth_combine:
  "i < numParticles st \<Longrightarrow> c < 3 \<Longrightarrow>
   combine st acc v ! (3 * i + c) =
     getTimeStepSize st * getTimeStepSize st * getStiffness st * acc ! (3 * i + c)
     + getMass st i * v i c"
  by (simp add: combine_def nth_concat_blocks)

lemma index_split: "k < 3 * n \<Longrightarrow> \<exists>i c. k = 3 * i + c \<and> i < n \<and> c < (3::nat)"
  by (rule exI [of _ "k div 3"], rule exI [of _ "k mod 3"]) auto

lemma blocks_eqI:
  assumes "length u = 3 * n" "length v = 3 * n"
    and "\<And>i c. i < n \<Longrightarrow> c < 3 \<Longrightarrow> u ! (3 * i + c) = v ! (3 * i + c)"
  shows "u = (v::real list)"
proof (rule nth_equalityI)
  show "length u = length v" using assms by simp
next
  fix k assume "k < length u"
  then obtain i c where "k = 3 * i + c" "i < n" "c < 3"
    using index_split [of k n] assms(1) by auto
  then show "u ! k = v ! k" using assms(3) by simp
qed

subsection \<open>Stiffness zero\<close>

lemma xsub_self: "xsub v v = replicate (length v) 0"
  by (induction v) (simp_all add: xsub_def)

lemma squaredNorm_replicate_zero [simp]: "squaredNorm (replicate n 0) = 0"
  by (induction n) (simp_all add: squaredNorm_def)

lemma lhs_stiffness_zero:
  assumes "getStiffness st = 0" "i < numParticles st" "c < 3"
  shows "matrixFreeLHS st x ! (3 * i + c) = getMass st i * x ! (3 * i + c)"
  using assms by (simp add: matrixFreeLHS_def nth_combine)

lemma rhs_stiffness_zero:
  assumes "getStiffness st = 0" "i < numParticles st" "c < 3"
  shows "matrixFreeRHS st ! (3 * i + c) = getMass st i * coeff (getS st i) c"
  using assms by (simp add: matrixFreeRHS_def nth_combine)

lemma length_matrixFreeLHS [simp]: "length (matrixFreeLHS st x) = 3 * numParticles st"
  by (simp add: matrixFreeLHS_def)

lemma length_matrixFreeRHS [simp]: "length (matrixFreeRHS st) = 3 * numParticles st"
  by (simp add: matrixFreeRHS_def)

lemma euler_example_fields:
  "numParticles euler_example = 2"
  "getPosition euler_example = (\<lambda>s i. if i = 0 then Vec3 0 0 0 else Vec3 1 0 0)"
  "getVelocity euler_example = (\<lambda>i. if i = 0 then Vec3 1 0 0 else Vec3 0 1 0)"
  "getAcceleration euler_example = (\<lambda>i. Vec3 0 0 (- 10))"
  "getStiffness euler_example = 0"
  "getTimeStepSize euler_example = 1 / 2"
  "getX euler_example = [0, 0, 0, 0, 0, 0]"
  "m_maxIterations euler_example = 5"
  by (simp_all add: euler_example_def)

lemma initialGuess_fields:
  "numParticles (initialGuessForPositions st) = numParticles st"
  "getStiffness (initialGuessForPositions st) = getStiffness st"
  "getX (initialGuessForPositions st) = getX st"
  "getTimeStepSize (initialGuessForPositions st) = getTimeStepSize st"
  "m_maxIterations (initialGuessForPositions st) = m_maxIterations st"
  "getVelocity (initialGuessForPositions st) = getVelocity st"
  "getAcceleration (initialGuessForPositions st) = getAcceleration st"
  "getNeighbors (initialGuessForPositions st) = getNeighbors st"
  by (simp_all add: initialGuessForPositions_def initialGuess_closed)

lemma initialGuess_particle:
  assumes "i < numParticles st"
  shows "getOldPosition (initialGuessForPositions st) i = getPosition st 0 i"
    and "getPosition (initialGuessForPositions st) 0 i = predicted st i"
    and "getS (initialGuessForPositions st) i = predicted st i"
  using assms by (simp_all add: initialGuessForPositions_def initialGuess_closed)

text \<open>
  Claim C1. If the stiffness is \<open>0\<close>, the first \<^verbatim>\<open>cgSolve\<close> call of a step returns
  \<^verbatim>\<open>ALREADY_SOLVED\<close> and leaves the solution vector equal to the predicted positions. The
  state is the one \<^verbatim>\<open>solvePDConstraints\<close> is entered with: the model positions are the
  predicted positions, as \<^verbatim>\<open>initialGuessForPositions\<close> leaves them, and \<open>x\<close> has three
  entries per particle; the neighbour lists are arbitrary. The operator is then
  \<open>mass i * x\<close> entry by entry, the right-hand side \<open>mass i * predictedPosition i\<close>, and the
  initial residual is zero; the outer loop stops after that call and the final positions are
  the predicted ones.
\<close>

theorem stiffness_zero_already_solved:
  assumes stiff: "getStiffness st = 0"
    and sized: "length (getX st) = 3 * numParticles st"
    and pred: "\<forall>i < numParticles st. getPosition st 0 i = getS st i"
  shows "cgSolve (prepareSolve st) = (ALREADY_SOLVED, prepareSolve st) \<and>
         (\<forall>i < numParticles st. Vec3Block (getX (prepareSolve st)) i = getS st i) \<and>
         (\<forall>i < numParticles st. \<forall>c < 3. \<forall>x.
            matrixFreeLHS (prepareSolve st) x ! (3 * i + c) = getMass st i * x ! (3 * i + c) \<and>
            matrixFreeRHS (prepareSolve st) ! (3 * i + c) = getMass st i * coeff (getS st i) c) \<and>
         squaredNorm (initialResidual (prepareSolve st)) = 0 \<and>
         pdLoop (m_maxIterations st) (prepareSolve st) = (prepareSolve st, min 1 (m_maxIterations st)) \<and>
         (\<forall>i < numParticles st. getPosition (solvePDConstraints st) 0 i = getS st i)"
proof -
  define st1 where "st1 = prepareSolve st"
  have frame: "st1 = st\<lparr>getX := getX st1, getNumFluidNeighbors := getNumFluidNeighbors st1\<rparr>"
    unfolding st1_def by (rule prepareSolve_frame)
  have n1: "numParticles st1 = numParticles st" by (subst frame) simp
  have k1: "getStiffness st1 = 0" using stiff by (subst frame) simp
  have m1: "getMass st1 = getMass st" by (subst frame) simp
  have s1: "getS st1 = getS st" by (subst frame) simp
  have it1: "m_maxIterations st1 = m_maxIterations st" by (subst frame) simp
  have blk: "Vec3Block (getX st1) i = getS st i" if "i < numParticles st" for i
    using prepareSolve_block [OF sized that] pred that by (simp add: st1_def)
  have xs: "getX st1 ! (3 * i + c) = coeff (getS st i) c" if "i < numParticles st" "c < 3" for i c
    using prepareSolve_X [OF sized that] pred that by (simp add: st1_def)
  have lhs: "matrixFreeLHS st1 x ! (3 * i + c) = getMass st i * x ! (3 * i + c)"
    if "i < numParticles st" "c < 3" for i c x
    using lhs_stiffness_zero [OF k1, of i c x] that by (simp add: n1 m1)
  have rhs: "matrixFreeRHS st1 ! (3 * i + c) = getMass st i * coeff (getS st i) c"
    if "i < numParticles st" "c < 3" for i c
    using rhs_stiffness_zero [OF k1, of i c] that by (simp add: n1 m1 s1)
  have eq: "matrixFreeLHS st1 (getX st1) = matrixFreeRHS st1"
    by (rule blocks_eqI [of _ "numParticles st"]) (simp_all add: n1 lhs rhs xs)
  have res: "initialResidual st1 = replicate (3 * numParticles st) 0"
    by (simp add: initialResidual_def calculateNegativeGradient_def Let_def eq xsub_self n1)
  have zero: "squaredNorm (initialResidual st1) = 0"
    by (simp add: res)
  have tr: "cgSolveTrace st1 = (ALREADY_SOLVED, st1, [(0, getX st1)])"
    by (simp add: cgSolveTrace_cases zero converged_def tol_abs_def)
  have solve: "cgSolve st1 = (ALREADY_SOLVED, st1)"
    by (simp add: cgSolve_def tr)
  have pd: "pdLoop n st1 = (st1, min 1 n)" for n
    by (cases n) (simp_all add: solve)
  have fin: "getPosition (solvePDConstraints st) 0 i = getS st i" if "i < numParticles st" for i
    using that blk [OF that]
    by (simp add: solvePDConstraints_def st1_def [symmetric] pd updatePositionsAndVelocity_def
        updatePositions_closed n1)
  show ?thesis
    using solve blk lhs rhs zero pd fin by (simp add: st1_def [symmetric])
qed


theorem stiffness_zero_already_solved_witness:
  "getStiffness (initialGuessForPositions euler_example) = 0 \<and>
   length (getX (initialGuessForPositions euler_example)) =
     3 * numParticles (initialGuessForPositions euler_example) \<and>
   getPosition (initialGuessForPositions euler_example) 0 1 =
     getS (initialGuessForPositions euler_example) 1 \<and>
   cgSolve (prepareSolve (initialGuessForPositions euler_example)) =
     (ALREADY_SOLVED, prepareSolve (initialGuessForPositions euler_example)) \<and>
   Vec3Block (getX (prepareSolve (initialGuessForPositions euler_example))) 1 =
     Vec3 1 (1 / 2) (- (5 / 2)) \<and>
   getPosition (solvePDConstraints (initialGuessForPositions euler_example)) 0 1 =
     Vec3 1 (1 / 2) (- (5 / 2))"
proof -
  define E where "E = initialGuessForPositions euler_example"
  have k: "getStiffness E = 0"
    by (simp add: E_def initialGuess_fields euler_example_fields)
  have l: "length (getX E) = 3 * numParticles E"
    by (simp add: E_def initialGuess_fields euler_example_fields)
  have p: "\<forall>i < numParticles E. getPosition E 0 i = getS E i"
    by (simp add: E_def initialGuess_fields initialGuess_particle)
  have one: "(1::nat) < numParticles E"
    by (simp add: E_def initialGuess_fields euler_example_fields)
  have s: "getS E 1 = Vec3 1 (1 / 2) (- (5 / 2))"
    by (simp add: E_def initialGuess_particle euler_example_fields predicted_def)
  show ?thesis
    using stiffness_zero_already_solved [OF k l p] k l p one s
    by (simp add: E_def [symmetric])
qed

subsection \<open>Prediction and update\<close>

text \<open>
  Claim C8. The prediction stage sets, for every particle \<open>i\<close>, \<open>oldPosition i\<close> to the
  pre-step position and both the model position and \<open>predictedPosition i\<close> to
  \<open>position i + h * velocity i + (h * h) * acceleration i\<close>; after the implicit solve
  (\<^verbatim>\<open>solvePDConstraints\<close>, whatever the solver's outcome) the model position is the block
  \<open>i\<close> of the solved \<open>x\<close> and the velocity is \<open>(newPosition - oldPosition) / h\<close>.
\<close>

theorem prediction_and_update:
  assumes "i < numParticles st"
  shows "getOldPosition (initialGuessForPositions st) i = getPosition st 0 i \<and>
         getPosition (initialGuessForPositions st) 0 i =
           vadd (vadd (getPosition st 0 i) (vscale (getTimeStepSize st) (getVelocity st i)))
             (vscale (getTimeStepSize st * getTimeStepSize st) (getAcceleration st i)) \<and>
         getS (initialGuessForPositions st) i = getPosition (initialGuessForPositions st) 0 i \<and>
         getX (solvePDConstraints st) = getX (fst (pdLoop (m_maxIterations st) (prepareSolve st))) \<and>
         getPosition (solvePDConstraints st) 0 i = Vec3Block (getX (solvePDConstraints st)) i \<and>
         getVelocity (solvePDConstraints st) i =
           vdiv (vsub (getPosition (solvePDConstraints st) 0 i) (getOldPosition st i))
             (getTimeStepSize st)"
proof -
  define st1 where "st1 = prepareSolve st"
  define st2 where "st2 = fst (pdLoop (m_maxIterations st) st1)"
  have f1: "st1 = st\<lparr>getX := getX st1, getNumFluidNeighbors := getNumFluidNeighbors st1\<rparr>"
    unfolding st1_def by (rule prepareSolve_frame)
  have f2: "st2 = st1\<lparr>getX := getX st2\<rparr>"
    unfolding st2_def by (rule pdLoop_frame)
  have f: "st2 = st\<lparr>getX := getX st2, getNumFluidNeighbors := getNumFluidNeighbors st1\<rparr>"
    by (subst f2, subst f1) simp
  have n: "numParticles st2 = numParticles st" by (subst f) simp
  have h: "getTimeStepSize st2 = getTimeStepSize st" by (subst f) simp
  have old: "getOldPosition st2 = getOldPosition st" by (subst f) simp
  have fin: "solvePDConstraints st = updatePositionsAndVelocity st2"
    by (simp add: solvePDConstraints_def st1_def st2_def)
  have x: "getX (solvePDConstraints st) = getX st2"
    by (simp add: fin updatePositionsAndVelocity_def updatePositions_closed)
  have pos: "getPosition (solvePDConstraints st) 0 i = Vec3Block (getX st2) i"
    using assms by (simp add: fin updatePositionsAndVelocity_def updatePositions_closed n)
  have vel: "getVelocity (solvePDConstraints st) i =
      vdiv (vsub (Vec3Block (getX st2) i) (getOldPosition st i)) (getTimeStepSize st)"
    using assms by (simp add: fin updatePositionsAndVelocity_def updatePositions_closed n h old)
  show ?thesis
    using initialGuess_particle [OF assms] x pos vel
    by (simp add: predicted_def st2_def st1_def)
qed

theorem prediction_and_update_witness:
  "(1::nat) < numParticles euler_example \<and>
   getOldPosition (initialGuessForPositions euler_example) 1 = Vec3 1 0 0 \<and>
   getPosition (initialGuessForPositions euler_example) 0 1 = Vec3 1 (1 / 2) (- (5 / 2)) \<and>
   getS (initialGuessForPositions euler_example) 1 = Vec3 1 (1 / 2) (- (5 / 2)) \<and>
   getVelocity (solvePDConstraints euler_example) 1 =
     vdiv (vsub (Vec3Block (getX (solvePDConstraints euler_example)) 1) vzero) (1 / 2)"
proof -
  have one: "(1::nat) < numParticles euler_example"
    by (simp add: euler_example_fields)
  have old: "getOldPosition euler_example 1 = vzero"
    by (simp add: euler_example_def)
  show ?thesis
    using prediction_and_update [OF one] one old
    by (simp add: euler_example_fields)
qed

section \<open>The matrix-free operator\<close>

lemma length_addBlock [simp]: "length (addBlock acc i v) = length acc"
  by (simp add: addBlock_def addToAtomicReal_def upt_conv_Cons)

lemma addBlock_unfold:
  "addBlock acc i v =
     addToAtomicReal (addToAtomicReal (addToAtomicReal acc (3 * i) (coeff v 0))
       (3 * i + 1) (coeff v 1)) (3 * i + 2) (coeff v 2)"
  by (simp add: addBlock_def upt_conv_Cons numeral_2_eq_2)

lemma nth_addBlock:
  assumes a: "3 * i + 2 < length acc"
  shows "addBlock acc i v ! k = acc ! k + (if k div 3 = i then coeff v (k mod 3) else 0)"
proof -
  have "k div 3 \<noteq> i \<or> k = 3 * i \<or> k = 3 * i + 1 \<or> k = 3 * i + 2"
    by presburger
  then consider "k = 3 * i" | "k = 3 * i + 1" | "k = 3 * i + 2" | "k div 3 \<noteq> i"
    by blast
  then show ?thesis
  proof cases
    case 1
    then show ?thesis using a by (simp add: addBlock_unfold addToAtomicReal_def)
  next
    case 2
    have "(3 * i + 1) div 3 = i" "(3 * i + 1) mod 3 = 1" by presburger+
    with 2 show ?thesis using a by (simp add: addBlock_unfold addToAtomicReal_def)
  next
    case 3
    have "(3 * i + 2) div 3 = i" "(3 * i + 2) mod 3 = 2" by presburger+
    with 3 show ?thesis using a by (simp add: addBlock_unfold addToAtomicReal_def)
  next
    case 4
    then have "k \<noteq> 3 * i" "k \<noteq> 3 * i + 1" "k \<noteq> 3 * i + 2" by auto
    with 4 show ?thesis by (simp add: addBlock_unfold addToAtomicReal_def)
  qed
qed

lemma fold_index: "fold (\<lambda>j. f (xs ! j)) [0..<length xs] a = fold f xs a"
proof (induction xs arbitrary: a rule: rev_induct)
  case Nil
  show ?case by simp
next
  case (snoc y ys)
  have "fold (\<lambda>j. f ((ys @ [y]) ! j)) [0..<length ys] a = fold (\<lambda>j. f (ys ! j)) [0..<length ys] a"
    by (rule fold_cong) (auto simp: nth_append)
  then show ?case using snoc by simp
qed


lemma length_fold_addContribution [simp]:
  "length (fold addContribution cs acc) = length acc"
  by (induction cs arbitrary: acc) (simp_all add: addContribution_def)

lemma nth_fold_addContribution:
  "\<forall>tv \<in> set cs. 3 * fst tv + 2 < length acc \<Longrightarrow>
   fold addContribution cs acc ! k = acc ! k + (\<Sum>tv\<leftarrow>cs. contribution k tv)"
proof (induction cs arbitrary: acc)
  case Nil
  show ?case by simp
next
  case (Cons tv cs)
  have "\<forall>u \<in> set cs. 3 * fst u + 2 < length (addContribution tv acc)"
    using Cons.prems by (simp add: addContribution_def)
  from Cons.IH [OF this] show ?case
    using Cons.prems
    by (auto simp: addContribution_def nth_addBlock contribution_def)
qed

lemma fold_lhsNeighbor:
  "fold (lhsNeighbor x) nbs acc =
   fold addContribution (map (\<lambda>nb. (point_id nb, Vec3Block x (point_id nb))) (filter isFluid nbs)) acc"
  by (induction nbs arbitrary: acc) (simp_all add: lhsNeighbor_def addContribution_def isFluid_def)

lemma lhsParticle_contributions:
  "lhsParticle st x i acc = fold addContribution (lhsContributions st x i) acc"
proof -
  have "fold (\<lambda>j. lhsNeighbor x (getNeighbors st i ! j)) [0..<length (getNeighbors st i)]
          (addBlock acc i (Vec3Block x i)) =
        fold (lhsNeighbor x) (getNeighbors st i) (addBlock acc i (Vec3Block x i))"
    by (rule fold_index)
  then show ?thesis
    by (simp add: lhsParticle_def numberOfNeighbors_def getNeighbor_def fold_lhsNeighbor
        lhsContributions_def addContribution_def)
qed

lemma fold_fold_concat: "fold (\<lambda>i. fold f (g i)) is a = fold f (concat (map g is)) a"
  by (induction "is" arbitrary: a) simp_all

lemma lhsAccumulator_contributions:
  "lhsAccumulator st x =
     fold addContribution (concat (map (lhsContributions st x) [0..<numParticles st]))
       (replicate (numVariables st) 0)"
proof -
  have "lhsParticle st x = (\<lambda>i. fold addContribution (lhsContributions st x i))"
    by (rule ext)+ (simp add: lhsParticle_contributions)
  then show ?thesis
    by (simp add: lhsAccumulator_def fold_fold_concat)
qed


lemma numVariables_valid: "neighborsValid st \<Longrightarrow> numVariables st = 3 * numParticles st"
  by (simp add: neighborsValid_def numVariables_def)

lemma lhsContributions_valid:
  assumes "neighborsValid st"
  shows "\<forall>tv \<in> set (concat (map (lhsContributions st x) [0..<numParticles st])).
           3 * fst tv + 2 < 3 * numParticles st"
proof (intro ballI)
  fix tv assume "tv \<in> set (concat (map (lhsContributions st x) [0..<numParticles st]))"
  then obtain p where "p < numParticles st" "tv \<in> set (lhsContributions st x p)" by auto
  then have "fst tv < numParticles st"
    using assms by (auto simp: lhsContributions_def isFluid_def neighborsValid_def)
  then show "3 * fst tv + 2 < 3 * numParticles st" by simp
qed

lemma sum_list_filter_if:
  "(\<Sum>a\<leftarrow>filter P xs. f a) = (\<Sum>a\<leftarrow>xs. if P a then f a else (0::real))"
  by (induction xs) simp_all

lemma lhsContributions_sum:
  assumes "c < 3"
  shows "(\<Sum>tv\<leftarrow>lhsContributions st x p. contribution (3 * i + c) tv) =
         (if p = i then x ! (3 * p + c) else 0) +
         (\<Sum>nb\<leftarrow>getNeighbors st p.
            if point_set_id nb = 0 \<and> point_id nb = i then x ! (3 * point_id nb + c) else 0)"
proof -
  have dm: "(3 * i + c) div 3 = i" "(3 * i + c) mod 3 = c" "c mod 3 = c"
    using assms by presburger+
  have cf: "coeff (Vec3Block x q) c = x ! (3 * q + c)" for q
    using assms by (rule Vec3Block_coeff)
  have "(\<Sum>nb\<leftarrow>filter isFluid (getNeighbors st p).
            contribution (3 * i + c) (point_id nb, Vec3Block x (point_id nb))) =
        (\<Sum>nb\<leftarrow>getNeighbors st p.
            if point_set_id nb = 0 \<and> point_id nb = i then x ! (3 * point_id nb + c) else 0)"
    unfolding sum_list_filter_if
    by (rule arg_cong [where f = sum_list], rule map_cong)
      (auto simp: contribution_def dm cf isFluid_def)
  then show ?thesis
    by (auto simp: lhsContributions_def contribution_def dm cf comp_def)
qed

lemma sum_list_map_concat:
  "(\<Sum>a\<leftarrow>concat (map g is). f a) = (\<Sum>i\<leftarrow>is. \<Sum>a\<leftarrow>g i. (f a :: real))"
  by (induction "is") simp_all

lemma length_lhsAccumulator [simp]: "length (lhsAccumulator st x) = numVariables st"
  by (simp add: lhsAccumulator_contributions)

lemma nth_lhsAccumulator:
  assumes "neighborsValid st" "i < numParticles st" "c < 3"
  shows "lhsAccumulator st x ! (3 * i + c) =
         (\<Sum>p\<leftarrow>[0..<numParticles st].
            (if p = i then x ! (3 * p + c) else 0) +
            (\<Sum>nb\<leftarrow>getNeighbors st p.
               if point_set_id nb = 0 \<and> point_id nb = i then x ! (3 * point_id nb + c) else 0))"
proof -
  have nv: "numVariables st = 3 * numParticles st"
    using assms(1) by (rule numVariables_valid)
  have ok: "\<forall>tv \<in> set (concat (map (lhsContributions st x) [0..<numParticles st])).
              3 * fst tv + 2 < length (replicate (numVariables st) (0::real))"
    using lhsContributions_valid [OF assms(1)] by (simp add: nv)
  have lt: "3 * i + c < 3 * numParticles st" using assms(2,3) by simp
  have "lhsAccumulator st x ! (3 * i + c) =
        (\<Sum>tv\<leftarrow>concat (map (lhsContributions st x) [0..<numParticles st]).
           contribution (3 * i + c) tv)"
    unfolding lhsAccumulator_contributions nth_fold_addContribution [OF ok]
    using lt by (simp add: nv)
  also have "\<dots> = (\<Sum>p\<leftarrow>[0..<numParticles st].
                      \<Sum>tv\<leftarrow>lhsContributions st x p. contribution (3 * i + c) tv)"
    by (rule sum_list_map_concat)
  finally show ?thesis
    by (simp add: lhsContributions_sum [OF assms(3)])
qed

lemma coupling_example_fields:
  "numParticles coupling_example = 2"
  "getMass coupling_example = (\<lambda>i. if i = 0 then 1 else 2)"
  "getStiffness coupling_example = 4"
  "getTimeStepSize coupling_example = 1 / 2"
  "getNeighbors coupling_example =
     (\<lambda>i. if i = 0
          then [\<lparr>point_set_id = 0, point_id = 1\<rparr>, \<lparr>point_set_id = 1, point_id = 0\<rparr>]
          else [\<lparr>point_set_id = 0, point_id = 0\<rparr>])"
  by (simp_all add: coupling_example_def)

lemma coupling_example_valid: "neighborsValid coupling_example"
  by (auto simp: neighborsValid_def coupling_example_fields)

text \<open>
  Claim C2. For every input vector \<open>x\<close> of length \<open>3N\<close>, \<^verbatim>\<open>matrixFreeLHS\<close> writes, for every
  particle \<open>i\<close> and coordinate \<open>c\<close>,
  \<open>result[3i+c] = h * h * stiffness * accumulator[3i+c] + mass i * x[3i+c]\<close>, where the
  accumulator entry collects, over all particles \<open>p\<close>, \<open>x_p\<close> into the block of \<open>p\<close> itself
  and, for every fluid neighbour \<open>nb\<close> of \<open>p\<close> (point-set id \<open>0\<close>), \<open>x_nb\<close> into the block of
  \<open>nb\<close>; boundary neighbours contribute nothing.
\<close>

theorem matrixFreeLHS_entries:
  assumes "neighborsValid st" "length x = 3 * numParticles st" "i < numParticles st" "c < 3"
  shows "length (matrixFreeLHS st x) = 3 * numParticles st \<and>
         matrixFreeLHS st x ! (3 * i + c) =
           getTimeStepSize st * getTimeStepSize st * getStiffness st
             * lhsAccumulator st x ! (3 * i + c)
           + getMass st i * x ! (3 * i + c) \<and>
         length (lhsAccumulator st x) = 3 * numParticles st \<and>
         lhsAccumulator st x ! (3 * i + c) =
           (\<Sum>p\<leftarrow>[0..<numParticles st].
              (if p = i then x ! (3 * p + c) else 0) +
              (\<Sum>nb\<leftarrow>getNeighbors st p.
                 if point_set_id nb = 0 \<and> point_id nb = i then x ! (3 * point_id nb + c)
                 else 0))"
  using assms nth_lhsAccumulator [OF assms(1,3,4), of x]
  by (simp add: matrixFreeLHS_def nth_combine numVariables_valid)


theorem matrixFreeLHS_entries_witness:
  "neighborsValid coupling_example \<and>
   length [1, 2, 3, 4, 5, 6 :: real] = 3 * numParticles coupling_example \<and>
   lhsAccumulator coupling_example [1, 2, 3, 4, 5, 6] ! (3 * 1 + 2) = 12 \<and>
   matrixFreeLHS coupling_example [1, 2, 3, 4, 5, 6] ! (3 * 1 + 2) = 24"
proof -
  have l: "length [1, 2, 3, 4, 5, 6 :: real] = 3 * numParticles coupling_example"
    by (simp add: coupling_example_fields)
  have i: "(1::nat) < numParticles coupling_example"
    by (simp add: coupling_example_fields)
  have c: "(2::nat) < 3" by simp
  show ?thesis
    using matrixFreeLHS_entries [OF coupling_example_valid l i c] coupling_example_valid
    by (simp add: coupling_example_fields upt_conv_Cons)
qed

section \<open>The operator is diagonal and linear\<close>

lemma length_xadd [simp]: "length (xadd u v) = min (length u) (length v)"
  by (simp add: xadd_def)

lemma length_xsub [simp]: "length (xsub u v) = min (length u) (length v)"
  by (simp add: xsub_def)

lemma length_xscale [simp]: "length (xscale a v) = length v"
  by (simp add: xscale_def)

lemma nth_xadd: "k < length u \<Longrightarrow> k < length v \<Longrightarrow> xadd u v ! k = u ! k + v ! k"
  by (simp add: xadd_def)

lemma nth_xsub: "k < length u \<Longrightarrow> k < length v \<Longrightarrow> xsub u v ! k = u ! k - v ! k"
  by (simp add: xsub_def)

lemma nth_xscale: "k < length v \<Longrightarrow> xscale a v ! k = a * v ! k"
  by (simp add: xscale_def)

lemma sum_list_if_const:
  "(\<Sum>a\<leftarrow>xs. if P a then v else 0) = real (length (filter P xs)) * (v::real)"
  by (induction xs) (simp_all add: algebra_simps)

lemma sum_list_real_mult:
  "(\<Sum>p\<leftarrow>xs. real (f p) * v) = real (\<Sum>p\<leftarrow>xs. f p) * (v::real)"
  by (induction xs) (simp_all add: algebra_simps)

lemma sum_list_single:
  "i < n \<Longrightarrow> (\<Sum>p\<leftarrow>[0..<n]. if p = i then v else (0::real)) = v"
proof (induction n)
  case 0
  then show ?case by simp
next
  case (Suc n)
  show ?case
  proof (cases "i < n")
    case True
    then show ?thesis using Suc.IH by simp
  next
    case False
    then have i: "i = n" using Suc.prems by simp
    have "(\<Sum>p\<leftarrow>[0..<n]. if p = n then v else (0::real)) = (\<Sum>p\<leftarrow>[0..<n]. 0)"
      by (rule arg_cong [where f = sum_list], rule map_cong) auto
    then show ?thesis using i by simp
  qed
qed

lemma nth_lhsAccumulator_closed:
  assumes "neighborsValid st" "i < numParticles st" "c < 3"
  shows "lhsAccumulator st x ! (3 * i + c) = (1 + real (fluidOccurrences st i)) * x ! (3 * i + c)"
proof -
  have inner: "(\<Sum>nb\<leftarrow>getNeighbors st p.
                 if point_set_id nb = 0 \<and> point_id nb = i then x ! (3 * point_id nb + c) else 0) =
               real (length (filter (\<lambda>nb. point_set_id nb = 0 \<and> point_id nb = i)
                                (getNeighbors st p))) * x ! (3 * i + c)" for p
  proof -
    have "(\<Sum>nb\<leftarrow>getNeighbors st p.
             if point_set_id nb = 0 \<and> point_id nb = i then x ! (3 * point_id nb + c) else 0) =
          (\<Sum>nb\<leftarrow>getNeighbors st p.
             if point_set_id nb = 0 \<and> point_id nb = i then x ! (3 * i + c) else 0)"
      by (rule arg_cong [where f = sum_list], rule map_cong) auto
    then show ?thesis by (simp only: sum_list_if_const)
  qed
  have self: "(\<Sum>p\<leftarrow>[0..<numParticles st]. if p = i then x ! (3 * p + c) else 0) = x ! (3 * i + c)"
  proof -
    have "(\<Sum>p\<leftarrow>[0..<numParticles st]. if p = i then x ! (3 * p + c) else 0) =
          (\<Sum>p\<leftarrow>[0..<numParticles st]. if p = i then x ! (3 * i + c) else 0)"
      by (rule arg_cong [where f = sum_list], rule map_cong) auto
    then show ?thesis using sum_list_single [OF assms(2)] by simp
  qed
  have "lhsAccumulator st x ! (3 * i + c) =
        (\<Sum>p\<leftarrow>[0..<numParticles st]. if p = i then x ! (3 * p + c) else 0) +
        (\<Sum>p\<leftarrow>[0..<numParticles st].
            real (length (filter (\<lambda>nb. point_set_id nb = 0 \<and> point_id nb = i)
                            (getNeighbors st p))) * x ! (3 * i + c))"
    unfolding nth_lhsAccumulator [OF assms] inner
    by (simp add: sum_list_addf)
  also have "\<dots> = x ! (3 * i + c) + real (fluidOccurrences st i) * x ! (3 * i + c)"
    unfolding self fluidOccurrences_def
    by (simp only: sum_list_real_mult)
  finally show ?thesis by (simp add: algebra_simps)
qed

lemma nth_matrixFreeLHS_diagonal:
  assumes "neighborsValid st" "i < numParticles st" "c < 3"
  shows "matrixFreeLHS st x ! (3 * i + c) = systemDiagonal st i * x ! (3 * i + c)"
proof -
  have "matrixFreeLHS st x ! (3 * i + c) =
        getTimeStepSize st * getTimeStepSize st * getStiffness st
          * ((1 + real (fluidOccurrences st i)) * x ! (3 * i + c))
        + getMass st i * x ! (3 * i + c)"
    using assms by (simp add: matrixFreeLHS_def nth_combine nth_lhsAccumulator_closed)
  then show ?thesis
    by (simp add: systemDiagonal_def algebra_simps)
qed

lemma matrixFreeLHS_linear:
  assumes v: "neighborsValid st"
    and lx: "length x = 3 * numParticles st" and ld: "length d = 3 * numParticles st"
  shows "matrixFreeLHS st (xadd x (xscale a d)) =
         xadd (matrixFreeLHS st x) (xscale a (matrixFreeLHS st d))"
proof (rule blocks_eqI [of _ "numParticles st"])
  fix i c assume ic: "i < numParticles st" "c < (3::nat)"
  then have k: "3 * i + c < 3 * numParticles st" by simp
  have "matrixFreeLHS st (xadd x (xscale a d)) ! (3 * i + c) =
        systemDiagonal st i * (x ! (3 * i + c) + a * d ! (3 * i + c))"
    using k by (simp add: nth_matrixFreeLHS_diagonal [OF v ic] nth_xadd nth_xscale lx ld)
  moreover have "xadd (matrixFreeLHS st x) (xscale a (matrixFreeLHS st d)) ! (3 * i + c) =
        systemDiagonal st i * x ! (3 * i + c) + a * (systemDiagonal st i * d ! (3 * i + c))"
    using k by (simp add: nth_matrixFreeLHS_diagonal [OF v ic] nth_xadd nth_xscale)
  ultimately show "matrixFreeLHS st (xadd x (xscale a d)) ! (3 * i + c) =
        xadd (matrixFreeLHS st x) (xscale a (matrixFreeLHS st d)) ! (3 * i + c)"
    by (simp add: algebra_simps)
qed simp_all


section \<open>Restart and incremental update\<close>

declare cgLoopIncremental.simps [simp del]

lemma incremental_is_exact:
  assumes v: "neighborsValid st"
    and lx: "length (getX st) = 3 * numParticles st"
    and ld: "length d = 3 * numParticles st"
    and lb: "length b = 3 * numParticles st"
    and r: "r = xsub b (matrixFreeLHS st (getX st))"
  shows "xsub r (xscale a (matrixFreeLHS st d)) =
         xsub b (matrixFreeLHS st (xadd (getX st) (xscale a d)))"
proof (rule nth_equalityI)
  show "length (xsub r (xscale a (matrixFreeLHS st d))) =
        length (xsub b (matrixFreeLHS st (xadd (getX st) (xscale a d))))"
    by (simp add: r lb)
next
  fix k assume "k < length (xsub r (xscale a (matrixFreeLHS st d)))"
  then have k: "k < 3 * numParticles st" by (simp add: r lb)
  show "xsub r (xscale a (matrixFreeLHS st d)) ! k =
        xsub b (matrixFreeLHS st (xadd (getX st) (xscale a d))) ! k"
    using k
    by (simp add: matrixFreeLHS_linear [OF v lx ld] r nth_xsub nth_xadd nth_xscale lb)
qed

lemma calculateNegativeGradient_keep:
  "calculateNegativeGradient st b False = (xsub b (matrixFreeLHS st (getX st)), b)"
  by (simp add: calculateNegativeGradient_def)

lemma neighborsValid_getX [simp]: "neighborsValid (st\<lparr>getX := v\<rparr>) = neighborsValid st"
  by (simp add: neighborsValid_def)

lemma cgResidual_incremental:
  assumes "neighborsValid st" "length (getX st) = 3 * numParticles st"
    "length d = 3 * numParticles st" "length b = 3 * numParticles st"
    "r = xsub b (matrixFreeLHS st (getX st))"
  shows "cgResidual st b cg_it d r delta_new =
           xsub r (xscale (cgAlpha st d delta_new) (matrixFreeLHS st d))"
    and "cgResidual st b cg_it d r delta_new =
           xsub b (matrixFreeLHS (cgAdvance st d delta_new) (getX (cgAdvance st d delta_new)))"
  using incremental_is_exact [OF assms, of "cgAlpha st d delta_new"]
  by (simp_all add: cgResidual_def calculateNegativeGradient_keep cgAdvance_def)

lemma cgLoopIncremental_unfold:
  "cgLoopIncremental st b delta_0 cg_it d r delta_new tr =
     (if cg_it < numVariables st then
        (let st1 = cgAdvance st d delta_new;
             r1 = xsub r (xscale (cgAlpha st d delta_new) (matrixFreeLHS st d));
             delta_new1 = squaredNorm r1
         in if converged delta_new1 delta_0 then (CONVERGED, st1, tr @ [(delta_new1, getX st1)])
            else cgLoopIncremental st1 b delta_0 (cg_it + 1)
                   (xadd (xscale (delta_new1 / delta_new) d) r1) r1
                   delta_new1 (tr @ [(delta_new1, getX st1)]))
      else (MAX_ITER_REACHED, st, tr))"
  by (subst cgLoopIncremental.simps) (simp add: Let_def cgAdvance_def cgAlpha_def)

lemma cgLoop_eq_incremental:
  assumes "neighborsValid st" "length (getX st) = 3 * numParticles st"
    "length d = 3 * numParticles st" "length b = 3 * numParticles st"
    "r = xsub b (matrixFreeLHS st (getX st))"
  shows "cgLoop st b delta_0 cg_it d r delta_new tr =
         cgLoopIncremental st b delta_0 cg_it d r delta_new tr"
  using assms
proof (induction st b delta_0 cg_it d r delta_new tr rule: cgLoop_induct)
  case (step st b delta_0 cg_it d r delta_new tr)
  define r1 where "r1 = cgResidual st b cg_it d r delta_new"
  define st1 where "st1 = cgAdvance st d delta_new"
  have inc: "r1 = xsub r (xscale (cgAlpha st d delta_new) (matrixFreeLHS st d))"
    unfolding r1_def by (rule cgResidual_incremental(1) [OF step.prems])
  have exact: "r1 = xsub b (matrixFreeLHS st1 (getX st1))"
    unfolding r1_def st1_def by (rule cgResidual_incremental(2) [OF step.prems])
  show ?case
  proof (cases "cg_it < numVariables st \<and> \<not> converged (squaredNorm r1) delta_0")
    case False
    then show ?thesis
      by (subst cgLoop_unfold, subst cgLoopIncremental_unfold)
        (auto simp: Let_def r1_def [symmetric] inc [symmetric])
  next
    case True
    have v1: "neighborsValid st1" using step.prems(1) by (simp add: st1_def cgAdvance_def)
    have n1: "numParticles st1 = numParticles st" by (simp add: st1_def cgAdvance_def)
    have lx1: "length (getX st1) = 3 * numParticles st1"
      using step.prems(2,3) by (simp add: st1_def cgAdvance_def)
    have lr1: "length r1 = 3 * numParticles st"
      using step.prems(3,4,5) by (simp add: inc)
    have ld1: "length (cgDirection st b cg_it d r delta_new) = 3 * numParticles st1"
      using lr1 step.prems(3) by (simp add: cgDirection_def r1_def [symmetric] n1)
    have lb1: "length b = 3 * numParticles st1" using step.prems(4) by (simp add: n1)
    have rec: "cgLoop st1 b delta_0 (cg_it + 1) (cgDirection st b cg_it d r delta_new) r1
                 (squaredNorm r1) (tr @ [(squaredNorm r1, getX st1)]) =
               cgLoopIncremental st1 b delta_0 (cg_it + 1) (cgDirection st b cg_it d r delta_new) r1
                 (squaredNorm r1) (tr @ [(squaredNorm r1, getX st1)])"
      using True step.IH [OF _ _ v1 [unfolded st1_def] lx1 [unfolded st1_def]
          ld1 [unfolded st1_def] lb1 [unfolded st1_def] exact [unfolded st1_def r1_def]]
      by (simp add: r1_def st1_def)
    show ?thesis
      using True rec
      by (subst cgLoop_unfold, subst cgLoopIncremental_unfold)
        (simp add: Let_def r1_def [symmetric] st1_def [symmetric] inc [symmetric]
          cgDirection_def)
  qed
qed


lemma length_initialResidual [simp]: "length (initialResidual st) = 3 * numParticles st"
  by (simp add: initialResidual_def calculateNegativeGradient_def Let_def)

lemma initialResidual_exact:
  "initialResidual st = xsub (matrixFreeRHS st) (matrixFreeLHS st (getX st))"
  by (simp add: initialResidual_def calculateNegativeGradient_def Let_def)

lemma cgSolveTraceIncremental_cases:
  "cgSolveTraceIncremental st =
     (let delta = squaredNorm (initialResidual st)
      in if converged delta delta then (ALREADY_SOLVED, st, [(delta, getX st)])
         else cgLoopIncremental st (matrixFreeRHS st) delta 0 (initialResidual st)
                (initialResidual st) delta [(delta, getX st)])"
  by (simp add: cgSolveTraceIncremental_def initialResidual_def calculateNegativeGradient_def
      Let_def)

text \<open>
  Claim C6. In exact arithmetic the incremental update \<open>r - alpha * (A * d)\<close> performed after
  \<open>x := x + alpha * d\<close> equals the recomputation \<open>b - A * x\<close> with the \<open>b\<close> computed once at
  initialisation (\<^verbatim>\<open>calculateNegativeGradient\<close> with \<^verbatim>\<open>updateRhs = false\<close> returns \<open>b\<close> as it
  was); hence the residual of an iteration has the same value whether or not it is a restart
  iteration, and the whole solve equals the solve that never restarts.
\<close>

theorem restart_equals_incremental_update:
  assumes "neighborsValid st" "length (getX st) = 3 * numParticles st"
  shows "(\<forall>b d a. length b = 3 * numParticles st \<and> length d = 3 * numParticles st \<longrightarrow>
            calculateNegativeGradient (st\<lparr>getX := xadd (getX st) (xscale a d)\<rparr>) b False =
              (xsub (xsub b (matrixFreeLHS st (getX st))) (xscale a (matrixFreeLHS st d)), b)) \<and>
         (\<forall>b d cg_it delta_new.
            length b = 3 * numParticles st \<and> length d = 3 * numParticles st \<longrightarrow>
            cgResidual st b cg_it d (xsub b (matrixFreeLHS st (getX st))) delta_new =
              xsub (xsub b (matrixFreeLHS st (getX st)))
                (xscale (cgAlpha st d delta_new) (matrixFreeLHS st d))) \<and>
         cgSolveTrace st = cgSolveTraceIncremental st"
proof (intro conjI allI impI)
  fix b d :: VectorXr and a :: real
  assume l: "length b = 3 * numParticles st \<and> length d = 3 * numParticles st"
  show "calculateNegativeGradient (st\<lparr>getX := xadd (getX st) (xscale a d)\<rparr>) b False =
          (xsub (xsub b (matrixFreeLHS st (getX st))) (xscale a (matrixFreeLHS st d)), b)"
    using incremental_is_exact [OF assms _ _ refl, of d b a] l
    by (simp add: calculateNegativeGradient_keep)
next
  fix b d :: VectorXr and cg_it :: nat and delta_new :: real
  assume l: "length b = 3 * numParticles st \<and> length d = 3 * numParticles st"
  show "cgResidual st b cg_it d (xsub b (matrixFreeLHS st (getX st))) delta_new =
          xsub (xsub b (matrixFreeLHS st (getX st)))
            (xscale (cgAlpha st d delta_new) (matrixFreeLHS st d))"
    using l by (intro cgResidual_incremental(1) [OF assms _ _ refl]) simp_all
next
  show "cgSolveTrace st = cgSolveTraceIncremental st"
    unfolding cgSolveTrace_cases cgSolveTraceIncremental_cases Let_def
    using cgLoop_eq_incremental [OF assms _ _ initialResidual_exact,
        of "initialResidual st"]
    by simp
qed

lemma residual_example_valid: "neighborsValid residual_example"
  by (simp add: neighborsValid_def residual_example_fields)

theorem restart_equals_incremental_update_witness:
  "neighborsValid residual_example \<and>
   length (getX residual_example) = 3 * numParticles residual_example \<and>
   (49 + 1) mod restart_iterations = 0 \<and>
   cgResidual residual_example [0, 0, 0, 0, 0, 0] 49 [1, 0, 0, 1 / 2, 0, 0]
     (xsub [0, 0, 0, 0, 0, 0] (matrixFreeLHS residual_example (getX residual_example))) (5 / 4) =
     [7 / 12, 0, 0, - (7 / 6), 0, 0] \<and>
   fst (calculateNegativeGradient
          (cgAdvance residual_example [1, 0, 0, 1 / 2, 0, 0] (5 / 4)) [0, 0, 0, 0, 0, 0] False) =
     [7 / 12, 0, 0, - (7 / 6), 0, 0] \<and>
   cgSolveTrace residual_example = cgSolveTraceIncremental residual_example"
proof -
  have l: "length (getX residual_example) = 3 * numParticles residual_example"
    by (simp add: residual_example_fields)
  note t = restart_equals_incremental_update [OF residual_example_valid l]
  have a: "cgAlpha residual_example [1, 0, 0, 1 / 2, 0, 0] (5 / 4) = 5 / 12"
    by (simp add: cgAlpha_def lhs_residual dot_def)
  have r: "cgResidual residual_example [0, 0, 0, 0, 0, 0] 49 [1, 0, 0, 1 / 2, 0, 0]
     (xsub [0, 0, 0, 0, 0, 0] (matrixFreeLHS residual_example (getX residual_example))) (5 / 4) =
     [7 / 12, 0, 0, - (7 / 6), 0, 0]"
    using t [THEN conjunct2, THEN conjunct1, rule_format,
        of "[0, 0, 0, 0, 0, 0]" "[1, 0, 0, 1 / 2, 0, 0]" 49 "5 / 4"]
    by (simp add: residual_example_fields lhs_residual a xsub_def xscale_def)
  have g: "fst (calculateNegativeGradient
          (cgAdvance residual_example [1, 0, 0, 1 / 2, 0, 0] (5 / 4)) [0, 0, 0, 0, 0, 0] False) =
     [7 / 12, 0, 0, - (7 / 6), 0, 0]"
    using r by (simp add: cgResidual_def restart_iterations_def)
  show ?thesis
    using residual_example_valid l r g t [THEN conjunct2, THEN conjunct2]
    by (simp add: restart_iterations_def)
qed

section \<open>Residual norm and energy along the iterations\<close>

subsection \<open>A solve in which the squared residual norm grows\<close>

lemma compression_example_fields:
  "numParticles compression_example = 2"
  "getPosition compression_example =
     (\<lambda>s i. if s = 0 then (if i = 0 then Vec3 0 0 0 else Vec3 10 0 0)
            else (if i = 0 then Vec3 (1 / 8) 0 0 else Vec3 (41 / 4) 0 0))"
  "getMass compression_example = (\<lambda>i. if i = 0 then 1 else 15)"
  "getDensity0 compression_example = 16"
  "getStiffness compression_example = 1"
  "getBoundaryPsi compression_example = (\<lambda>s i. if i = 0 then 64 else 16)"
  "getNeighbors compression_example = (\<lambda>i. [\<lparr>point_set_id = 1, point_id = i\<rparr>])"
  "W_zero compression_example = 1"
  "W compression_example = (\<lambda>v. if squaredNorm3 v < 1 then 1 - squaredNorm3 v else 0)"
  "gradW compression_example = (\<lambda>v. if squaredNorm3 v < 1 then vscale (- 2) v else vzero)"
  "getTimeStepSize compression_example = 1"
  "getS compression_example = (\<lambda>i. if i = 0 then Vec3 0 0 0 else Vec3 10 0 0)"
  "getX compression_example = [0, 0, 0, 0, 0, 0]"
  "getNumFluidNeighbors compression_example = (\<lambda>i. 0)"
  by (simp_all add: compression_example_def)

lemma prepare_compression_example: "prepareSolve compression_example = compression_prepared"
  unfolding prepareSolve_def prepareSolve_closed compression_prepared_def
  by (rule TimeStepPF.equality)
    (auto simp: compression_example_fields upt_conv_Cons setBlock_def countFluidNeighbors_def
      numberOfNeighbors_def getNeighbor_def fun_eq_iff)

lemma compression_prepared_fields:
  "numParticles compression_prepared = 2"
  "getPosition compression_prepared =
     (\<lambda>s i. if s = 0 then (if i = 0 then Vec3 0 0 0 else Vec3 10 0 0)
            else (if i = 0 then Vec3 (1 / 8) 0 0 else Vec3 (41 / 4) 0 0))"
  "getMass compression_prepared = (\<lambda>i. if i = 0 then 1 else 15)"
  "getDensity0 compression_prepared = 16"
  "getStiffness compression_prepared = 1"
  "getBoundaryPsi compression_prepared = (\<lambda>s i. if i = 0 then 64 else 16)"
  "getNeighbors compression_prepared = (\<lambda>i. [\<lparr>point_set_id = 1, point_id = i\<rparr>])"
  "W_zero compression_prepared = 1"
  "W compression_prepared = (\<lambda>v. if squaredNorm3 v < 1 then 1 - squaredNorm3 v else 0)"
  "gradW compression_prepared = (\<lambda>v. if squaredNorm3 v < 1 then vscale (- 2) v else vzero)"
  "getTimeStepSize compression_prepared = 1"
  "getS compression_prepared = (\<lambda>i. if i = 0 then Vec3 0 0 0 else Vec3 10 0 0)"
  "getX compression_prepared = [0, 0, 0, 10, 0, 0]"
  "getNumFluidNeighbors compression_prepared = (\<lambda>i. if i < 2 then 1 else 0)"
  by (simp_all add: compression_prepared_def compression_example_fields)

lemmas projection_eval = gatherP_def calculateC_def density_def densityTerm_def density0_inv_def
  calculateNablaC_def nablaBlock_def squaredNormBlocks_def moveParticles_def
  C_goal_def max_steps_def regularization_def numberOfNeighbors_def getNeighbor_def
  Vec3Block_def vzero_def Let_def

lemma project_compression_0:
  "project compression_prepared 0 = ([Vec3 (- (1000000 / 666667)) 0 0, Vec3 (1 / 8) 0 0], 1)"
  apply (subst project_def)
  apply (subst projectionLoop.simps)
  apply (simp add: projection_eval compression_prepared_fields)
  apply (subst projectionLoop.simps)
  apply (simp add: projection_eval compression_prepared_fields)
  done

lemma project_compression_1:
  "project compression_prepared 1 = ([Vec3 (4562510 / 500001) 0 0, Vec3 (41 / 4) 0 0], 1)"
  apply (subst project_def)
  apply (subst projectionLoop.simps)
  apply (simp add: projection_eval compression_prepared_fields)
  apply (subst projectionLoop.simps)
  apply (simp add: projection_eval compression_prepared_fields)
  done


lemma rhs_compression:
  "matrixFreeRHS compression_prepared = [- (1000000 / 666667), 0, 0, 79562660 / 500001, 0, 0]"
proof -
  have p: "project compression_prepared (Suc 0) =
      ([Vec3 (4562510 / 500001) 0 0, Vec3 (41 / 4) 0 0], 1)"
    using project_compression_1 by simp
  show ?thesis
    by (simp add: matrixFreeRHS_def combine_def rhsAccumulator_def rhsParticle_def rhsNeighbor_def
      project_compression_0 p numVariables_def numberOfNeighbors_def getNeighbor_def
      addBlock_def addToAtomicReal_def compression_prepared_fields upt_conv_Cons Let_def)
qed

lemma lhs_compression:
  "matrixFreeLHS compression_prepared [a, b, c, d, e, f] = [2 * a, 2 * b, 2 * c, 16 * d, 16 * e, 16 * f]"
  by (simp add: compression_prepared_fields eval_defs upt_conv_Cons Let_def)

lemma init_compression:
  "initialResidual compression_prepared = [- (1000000 / 666667), 0, 0, - (437500 / 500001), 0, 0]"
  by (simp add: initialResidual_def calculateNegativeGradient_def rhs_compression Let_def)
     (simp add: compression_prepared_fields lhs_compression xsub_def)

lemma trace_compression:
  "cgSolveTrace compression_prepared =
    (CONVERGED, compression_prepared\<lparr>getX := [- (500000 / 666667), 0, 0, 19890665 / 2000004, 0, 0]\<rparr>,
     [(335070529514910156250000 / 111111666667583333888889, [0, 0, 0, 10, 0, 0]),
      (3218017365461197140625000000 / 886719252153270226249581649,
       [- (5361128472238562500 / 19851897629672518531), 0, 0,
        586175847398704739345 / 59555782222512222372, 0, 0]),
      (0, [- (500000 / 666667), 0, 0, 19890665 / 2000004, 0, 0])])"
  apply (simp add: cgSolveTrace_cases init_compression rhs_compression Let_def)
  apply (simp add: squaredNorm_def converged_def tol_abs_def tol_rel_def)
  apply (subst cgLoop_unfold)
  apply (simp add: cg_eval compression_prepared_fields lhs_compression)
  apply (subst cgLoop_unfold)
  apply (simp add: cg_eval compression_prepared_fields lhs_compression)
  done
text \<open>
  Claim C7 fails. The configuration has two fluid particles of mass \<open>1\<close> and \<open>15\<close>, each next
  to one boundary particle, with the kernel \<open>W v = max 0 (1 - |v|\<^sup>2)\<close> and its gradient. It is
  the state \<^verbatim>\<open>prepareSolve\<close> produces (\<open>x\<close> = positions = predicted positions). One projection
  step moves each particle out of its neighbour's support, the residual is
  \<open>(-1000000/666667, 0, 0, -437500/500001, 0, 0)\<close> against the diagonal \<open>(2, 2, 2, 16, 16, 16)\<close>,
  and the first iteration, not a restart, takes the squared residual norm from about \<open>3.02\<close> to
  about \<open>3.63\<close>.
\<close>

theorem squared_residual_can_increase:
  "map fst (snd (snd (cgSolveTrace (prepareSolve compression_example)))) =
     [335070529514910156250000 / 111111666667583333888889,
      3218017365461197140625000000 / 886719252153270226249581649, 0] \<and>
   (335070529514910156250000 / 111111666667583333888889 :: real)
     < 3218017365461197140625000000 / 886719252153270226249581649 \<and>
   (0 + 1) mod restart_iterations \<noteq> 0 \<and>
   \<not> residualNonIncreasing (snd (snd (cgSolveTrace (prepareSolve compression_example))))"
proof -
  have "\<not> residualNonIncreasing (snd (snd (cgSolveTrace compression_prepared)))"
    unfolding residualNonIncreasing_def trace_compression
    by (simp add: restart_iterations_def) (rule exI [of _ 0], simp)
  then show ?thesis
    by (simp add: prepare_compression_example trace_compression restart_iterations_def)
qed

subsection \<open>The energy does not grow\<close>

lemma dot_sum:
  assumes "length u = n" "length v = n"
  shows "dot u v = (\<Sum>k<n. u ! k * v ! k)"
proof -
  have "dot u v = (\<Sum>k = 0..<length (map2 (*) u v). map2 (*) u v ! k)"
    unfolding dot_def by (rule sum_list_sum_nth)
  also have "\<dots> = (\<Sum>k = 0..<n. u ! k * v ! k)"
    using assms by (intro sum.cong) simp_all
  finally show ?thesis by (simp add: atLeast0LessThan)
qed

lemma squaredNorm_dot: "squaredNorm v = dot v v"
  by (induction v) (simp_all add: squaredNorm_def dot_def)

lemma nth_matrixFreeLHS_index:
  assumes "neighborsValid st" "k < 3 * numParticles st"
  shows "matrixFreeLHS st x ! k = systemDiagonal st (k div 3) * x ! k"
proof -
  have i: "k div 3 < numParticles st" using assms(2) by auto
  have c: "k mod 3 < 3" by simp
  have "matrixFreeLHS st x ! (3 * (k div 3) + k mod 3) =
        systemDiagonal st (k div 3) * x ! (3 * (k div 3) + k mod 3)"
    by (rule nth_matrixFreeLHS_diagonal [OF assms(1) i c])
  then show ?thesis by simp
qed

lemma systemDiagonal_pos:
  assumes "0 < getMass st i" "0 \<le> getStiffness st"
  shows "0 < systemDiagonal st i"
proof -
  have "0 \<le> getTimeStepSize st * getTimeStepSize st" by simp
  then have "0 \<le> getTimeStepSize st * getTimeStepSize st * getStiffness st"
    using assms(2) by (rule mult_nonneg_nonneg)
  then have "0 \<le> getTimeStepSize st * getTimeStepSize st * getStiffness st
          * (1 + real (fluidOccurrences st i))"
    by (rule mult_nonneg_nonneg) simp
  then show ?thesis using assms(1) by (simp add: systemDiagonal_def)
qed


text \<open>One step of the iteration, on index sums.\<close>

lemma quadratic_expand:
  fixes f g D :: "nat \<Rightarrow> real"
  shows "(\<Sum>k<n. (f k + a * g k) * (D k * (f k + a * g k))) =
         (\<Sum>k<n. f k * (D k * f k)) + 2 * a * (\<Sum>k<n. (D k * f k) * g k)
         + a * a * (\<Sum>k<n. g k * (D k * g k))"
proof -
  have "(f k + a * g k) * (D k * (f k + a * g k)) =
        f k * (D k * f k) + 2 * a * ((D k * f k) * g k) + a * a * (g k * (D k * g k))" for k
    by (simp add: algebra_simps)
  then show ?thesis by (simp add: sum.distrib sum_distrib_left)
qed

lemma linear_expand:
  fixes f g h :: "nat \<Rightarrow> real"
  shows "(\<Sum>k<n. h k * (f k + a * g k)) = (\<Sum>k<n. h k * f k) + a * (\<Sum>k<n. h k * g k)"
proof -
  have "h k * (f k + a * g k) = h k * f k + a * (h k * g k)" for k
    by (simp add: algebra_simps)
  then show ?thesis by (simp add: sum.distrib sum_distrib_left)
qed

lemma residual_expand:
  fixes f g h D :: "nat \<Rightarrow> real"
  shows "(\<Sum>k<n. (h k - D k * f k) * g k) = (\<Sum>k<n. h k * g k) - (\<Sum>k<n. (D k * f k) * g k)"
proof -
  have "(h k - D k * f k) * g k = h k * g k - (D k * f k) * g k" for k
    by (simp add: algebra_simps)
  then show ?thesis by (simp add: sum_subtractf)
qed

lemma energy_step:
  assumes v: "neighborsValid st"
    and lx: "length x = 3 * numParticles st" and ld: "length d = 3 * numParticles st"
    and lb: "length b = 3 * numParticles st"
    and r: "r = xsub b (matrixFreeLHS st x)"
    and rd: "dot r d = delta"
  shows "energy st b (xadd x (xscale a d)) =
         energy st b x - a * delta + a * a * dot d (matrixFreeLHS st d) / 2"
proof -
  let ?n = "3 * numParticles st"
  let ?D = "\<lambda>k. systemDiagonal st (k div 3)"
  have A: "matrixFreeLHS st y ! k = ?D k * y ! k" if "k < ?n" for y k
    using nth_matrixFreeLHS_index [OF v that] .
  have x1: "xadd x (xscale a d) ! k = x ! k + a * d ! k" if "k < ?n" for k
    using that lx ld by (simp add: nth_xadd nth_xscale)
  have l1: "length (xadd x (xscale a d)) = ?n" using lx ld by simp
  have rk: "r ! k = b ! k - ?D k * x ! k" if "k < ?n" for k
    using that lb by (simp add: r nth_xsub A)
  have lr: "length r = ?n" using lb by (simp add: r)
  have e1: "energy st b (xadd x (xscale a d)) =
      (\<Sum>k<?n. (x ! k + a * d ! k) * (?D k * (x ! k + a * d ! k))) / 2
      - (\<Sum>k<?n. b ! k * (x ! k + a * d ! k))"
    unfolding energy_def
    by (simp add: dot_sum [OF l1 length_matrixFreeLHS] dot_sum [OF lb l1] A x1)
  have e0: "energy st b x = (\<Sum>k<?n. x ! k * (?D k * x ! k)) / 2 - (\<Sum>k<?n. b ! k * x ! k)"
    unfolding energy_def by (simp add: dot_sum [OF lx length_matrixFreeLHS] dot_sum [OF lb lx] A)
  have dl: "delta = (\<Sum>k<?n. (b ! k - ?D k * x ! k) * d ! k)"
    unfolding rd [symmetric] by (simp add: dot_sum [OF lr ld] rk)
  have s: "dot d (matrixFreeLHS st d) = (\<Sum>k<?n. d ! k * (?D k * d ! k))"
    by (simp add: dot_sum [OF ld length_matrixFreeLHS] A)
  have "(\<Sum>k<?n. (x ! k + a * d ! k) * (?D k * (x ! k + a * d ! k))) / 2
          - (\<Sum>k<?n. b ! k * (x ! k + a * d ! k)) =
        ((\<Sum>k<?n. x ! k * (?D k * x ! k)) / 2 - (\<Sum>k<?n. b ! k * x ! k))
          - a * (\<Sum>k<?n. (b ! k - ?D k * x ! k) * d ! k)
          + a * a * (\<Sum>k<?n. d ! k * (?D k * d ! k)) / 2"
    unfolding quadratic_expand linear_expand residual_expand
    by (simp add: algebra_simps)
  then show ?thesis
    unfolding e1 e0 dl s .
qed


lemma dot_commute: "length u = length v \<Longrightarrow> dot u v = dot v u"
  by (simp add: dot_sum [of u "length v" v] dot_sum [of v "length v" u] mult.commute)

lemma dot_xadd_right:
  assumes "length u = n" "length v = n" "length w = n"
  shows "dot u (xadd v w) = dot u v + dot u w"
proof -
  have l: "length (xadd v w) = n" using assms by simp
  show ?thesis
    unfolding dot_sum [OF assms(1) l] dot_sum [OF assms(1,2)] dot_sum [OF assms(1,3)]
    using assms by (simp add: nth_xadd algebra_simps sum.distrib)
qed

lemma dot_xscale_right:
  assumes "length u = n" "length v = n"
  shows "dot u (xscale a v) = a * dot u v"
proof -
  have l: "length (xscale a v) = n" using assms by simp
  show ?thesis
    unfolding dot_sum [OF assms(1) l] dot_sum [OF assms]
    using assms by (simp add: nth_xscale algebra_simps sum_distrib_left)
qed

lemma dot_xsub_left:
  assumes "length u = n" "length v = n" "length w = n"
  shows "dot (xsub u v) w = dot u w - dot v w"
proof -
  have l: "length (xsub u v) = n" using assms by simp
  show ?thesis
    unfolding dot_sum [OF l assms(3)] dot_sum [OF assms(1,3)] dot_sum [OF assms(2,3)]
    using assms by (simp add: nth_xsub algebra_simps sum_subtractf)
qed

lemma dot_operator_nonneg:
  assumes v: "neighborsValid st" and ld: "length d = 3 * numParticles st"
    and pos: "\<forall>i < numParticles st. 0 < getMass st i" and k: "0 \<le> getStiffness st"
  shows "0 \<le> dot d (matrixFreeLHS st d)"
    and "dot d (matrixFreeLHS st d) = 0 \<Longrightarrow> length r = 3 * numParticles st \<Longrightarrow> dot r d = 0"
proof -
  let ?n = "3 * numParticles st"
  let ?D = "\<lambda>k. systemDiagonal st (k div 3)"
  have D: "0 < ?D j" if "j < ?n" for j
  proof -
    have "j div 3 < numParticles st" using that by auto
    then show ?thesis using pos k by (intro systemDiagonal_pos) auto
  qed
  have s: "dot d (matrixFreeLHS st d) = (\<Sum>j<?n. d ! j * (?D j * d ! j))"
    by (simp add: dot_sum [OF ld length_matrixFreeLHS] nth_matrixFreeLHS_index [OF v])
  have nonneg: "0 \<le> d ! j * (?D j * d ! j)" if "j < ?n" for j
  proof -
    have e: "d ! j * (?D j * d ! j) = ?D j * (d ! j * d ! j)" by (simp add: algebra_simps)
    have sq: "0 \<le> d ! j * d ! j" by simp
    have "0 \<le> ?D j * (d ! j * d ! j)"
      by (rule mult_nonneg_nonneg [OF less_imp_le [OF D [OF that]] sq])
    then show ?thesis unfolding e .
  qed
  show "0 \<le> dot d (matrixFreeLHS st d)"
    unfolding s by (rule sum_nonneg) (use nonneg in auto)
  assume z: "dot d (matrixFreeLHS st d) = 0" and lr: "length r = ?n"
  have "\<forall>j \<in> {..<?n}. d ! j * (?D j * d ! j) = 0"
    using z nonneg unfolding s by (subst (asm) sum_nonneg_eq_0_iff) auto
  then have "d ! j = 0" if "j < ?n" for j
    using D [OF that] that by auto
  then show "dot r d = 0"
    by (simp add: dot_sum [OF lr ld])
qed
lemma energy_getX [simp]: "energy (st\<lparr>getX := v\<rparr>) b x = energy st b x"
  by (simp add: energy_def)

lemma not_converged_pos: "\<not> converged delta delta_0 \<Longrightarrow> 0 < delta"
  by (simp add: converged_def tol_abs_def not_less)

lemma cg_step_facts:
  assumes v: "neighborsValid st"
    and lx: "length (getX st) = 3 * numParticles st"
    and ld: "length d = 3 * numParticles st"
    and lb: "length b = 3 * numParticles st"
    and r: "r = xsub b (matrixFreeLHS st (getX st))"
    and rd: "dot r d = delta"
    and dp: "0 < delta"
    and pos: "\<forall>i < numParticles st. 0 < getMass st i" and k: "0 \<le> getStiffness st"
  shows "energy st b (getX (cgAdvance st d delta)) \<le> energy st b (getX st)"
    and "dot (cgResidual st b cg_it d r delta) (cgDirection st b cg_it d r delta) =
         squaredNorm (cgResidual st b cg_it d r delta)"
proof -
  let ?n = "3 * numParticles st"
  define q where "q = matrixFreeLHS st d"
  define s where "s = dot d q"
  define a where "a = cgAlpha st d delta"
  define r1 where "r1 = cgResidual st b cg_it d r delta"
  have lr: "length r = ?n" using lb by (simp add: r)
  have lq: "length q = ?n" by (simp add: q_def)
  have s0: "0 \<le> s" unfolding s_def q_def by (rule dot_operator_nonneg(1) [OF v ld pos k])
  have "s \<noteq> 0"
  proof
    assume "s = 0"
    then have "dot r d = 0"
      unfolding s_def q_def by (rule dot_operator_nonneg(2) [OF v ld pos k _ lr])
    with rd dp show False by simp
  qed
  with s0 have sp: "0 < s" by simp
  have a: "a = delta / s" by (simp add: a_def cgAlpha_def s_def q_def)
  have as: "a * s = delta" using sp by (simp add: a)
  have "energy st b (xadd (getX st) (xscale a d)) =
        energy st b (getX st) - a * delta + a * a * s / 2"
    unfolding s_def q_def by (rule energy_step [OF v lx ld lb r rd])
  also have "\<dots> = energy st b (getX st) - a * delta / 2"
  proof -
    have "a * a * s = a * (a * s)" by (simp only: mult.assoc)
    also have "\<dots> = a * delta" by (simp only: as)
    finally have "a * a * s / 2 = a * delta / 2" by (simp only:)
    then show ?thesis by (simp add: field_simps)
  qed
  also have "\<dots> \<le> energy st b (getX st)"
  proof -
    have "0 \<le> a" using dp sp by (simp add: a)
    then have "0 \<le> a * delta" using dp by simp
    then show ?thesis by simp
  qed
  finally show "energy st b (getX (cgAdvance st d delta)) \<le> energy st b (getX st)"
    by (simp add: cgAdvance_def a_def)
  have inc: "r1 = xsub r (xscale a q)"
    unfolding r1_def a_def q_def by (rule cgResidual_incremental(1) [OF v lx ld lb r])
  have lr1: "length r1 = ?n" using lr lq by (simp add: inc)
  have "dot r1 d = dot r d - dot (xscale a q) d"
    unfolding inc by (rule dot_xsub_left [OF lr _ ld]) (simp add: lq)
  also have "dot (xscale a q) d = a * s"
  proof -
    have "dot (xscale a q) d = dot d (xscale a q)"
      by (rule dot_commute) (simp add: lq ld)
    then show ?thesis by (simp add: dot_xscale_right [OF ld lq] s_def)
  qed
  finally have orth: "dot r1 d = 0" using rd as by simp
  have "dot r1 (xadd (xscale (squaredNorm r1 / delta) d) r1) =
        dot r1 (xscale (squaredNorm r1 / delta) d) + dot r1 r1"
    by (rule dot_xadd_right [OF lr1 _ lr1]) (simp add: ld)
  also have "\<dots> = squaredNorm r1"
    by (simp add: dot_xscale_right [OF lr1 ld] orth squaredNorm_dot)
  finally show "dot (cgResidual st b cg_it d r delta) (cgDirection st b cg_it d r delta) =
         squaredNorm (cgResidual st b cg_it d r delta)"
    by (simp add: cgDirection_def r1_def [symmetric] Let_def)
qed


lemma energyNonIncreasing_getX [simp]:
  "energyNonIncreasing (st\<lparr>getX := v\<rparr>) b tr = energyNonIncreasing st b tr"
  by (simp add: energyNonIncreasing_def)

lemma energyNonIncreasing_snoc:
  assumes "energyNonIncreasing st b tr" "tr \<noteq> []"
    "energy st b (snd e) \<le> energy st b (snd (last tr))"
  shows "energyNonIncreasing st b (tr @ [e])"
  using assms by (simp add: energyNonIncreasing_def successively_append_iff)

lemma cgLoop_energy:
  assumes "cgLoop st b delta_0 cg_it d r delta tr = (s, st1, tr1)"
    and "neighborsValid st"
    and "length (getX st) = 3 * numParticles st"
    and "length d = 3 * numParticles st"
    and "length b = 3 * numParticles st"
    and "r = xsub b (matrixFreeLHS st (getX st))"
    and "dot r d = delta"
    and "0 < delta"
    and "\<forall>i < numParticles st. 0 < getMass st i" and "0 \<le> getStiffness st"
    and "tr \<noteq> []" and "snd (last tr) = getX st" and "energyNonIncreasing st b tr"
  shows "energyNonIncreasing st b tr1"
  using assms
proof (induction st b delta_0 cg_it d r delta tr arbitrary: s st1 tr1 rule: cgLoop_induct)
  case (step st b delta_0 cg_it d r delta tr)
  define r1 where "r1 = cgResidual st b cg_it d r delta"
  define stA where "stA = cgAdvance st d delta"
  define e where "e = (squaredNorm r1, getX stA)"
  note inv = step.prems(2-10)
  have en: "energy st b (getX stA) \<le> energy st b (getX st)"
    unfolding stA_def by (rule cg_step_facts(1) [OF inv])
  have tr': "energyNonIncreasing st b (tr @ [e])"
    by (rule energyNonIncreasing_snoc [OF step.prems(13,11)])
      (simp add: e_def step.prems(12) en)
  show ?case
  proof (cases "cg_it < numVariables st")
    case False
    with step.prems(1) have "tr1 = tr" by (subst (asm) cgLoop_unfold) auto
    with step.prems(13) show ?thesis by simp
  next
    case lt: True
    show ?thesis
    proof (cases "converged (squaredNorm r1) delta_0")
      case True
      with lt step.prems(1) have "tr1 = tr @ [e]"
        by (subst (asm) cgLoop_unfold) (auto simp: Let_def r1_def stA_def e_def)
      with tr' show ?thesis by simp
    next
      case nc: False
      with lt step.prems(1)
      have rec: "cgLoop stA b delta_0 (cg_it + 1) (cgDirection st b cg_it d r delta) r1
              (squaredNorm r1) (tr @ [e]) = (s, st1, tr1)"
        by (subst (asm) cgLoop_unfold) (simp add: Let_def r1_def stA_def e_def)
      have n1: "numParticles stA = numParticles st" by (simp add: stA_def cgAdvance_def)
      have v1: "neighborsValid stA" using inv(1) by (simp add: stA_def cgAdvance_def)
      have lx1: "length (getX stA) = 3 * numParticles stA"
        using inv(2,3) by (simp add: stA_def cgAdvance_def)
      have inc: "r1 = xsub r (xscale (cgAlpha st d delta) (matrixFreeLHS st d))"
        unfolding r1_def by (rule cgResidual_incremental(1) [OF inv(1-5)])
      have exact: "r1 = xsub b (matrixFreeLHS stA (getX stA))"
        unfolding r1_def stA_def by (rule cgResidual_incremental(2) [OF inv(1-5)])
      have lr1: "length r1 = 3 * numParticles st" using inv(3,4,5) by (simp add: inc)
      have ld1: "length (cgDirection st b cg_it d r delta) = 3 * numParticles stA"
        using lr1 inv(3) by (simp add: cgDirection_def r1_def [symmetric] n1)
      have lb1: "length b = 3 * numParticles stA" using inv(4) by (simp add: n1)
      have rd1: "dot r1 (cgDirection st b cg_it d r delta) = squaredNorm r1"
        unfolding r1_def by (rule cg_step_facts(2) [OF inv])
      have dp1: "0 < squaredNorm r1" using nc by (rule not_converged_pos)
      have pos1: "\<forall>i < numParticles stA. 0 < getMass stA i"
        using inv(8) by (simp add: stA_def cgAdvance_def)
      have k1: "0 \<le> getStiffness stA" using inv(9) by (simp add: stA_def cgAdvance_def)
      have last1: "snd (last (tr @ [e])) = getX stA" by (simp add: e_def)
      have tr1': "energyNonIncreasing stA b (tr @ [e])"
        using tr' by (simp add: stA_def cgAdvance_def)
      have "energyNonIncreasing stA b tr1"
        using step.IH [OF lt nc [unfolded r1_def] rec [unfolded r1_def stA_def e_def]
            v1 [unfolded stA_def] lx1 [unfolded stA_def] ld1 [unfolded stA_def]
            lb1 [unfolded stA_def] exact [unfolded r1_def stA_def] rd1 [unfolded r1_def]
            dp1 [unfolded r1_def] pos1 [unfolded stA_def] k1 [unfolded stA_def] _
            last1 [unfolded e_def r1_def stA_def] tr1' [unfolded e_def r1_def stA_def]]
        by (simp add: stA_def)
      then show ?thesis by (simp add: stA_def cgAdvance_def)
    qed
  qed
qed

lemma compression_prepared_valid: "neighborsValid compression_prepared"
  by (simp add: neighborsValid_def compression_prepared_fields)

text \<open>
  Claim C7, amended. Across the iterations of one \<^verbatim>\<open>cgSolve\<close> run, in exact arithmetic, with
  valid neighbour ids, three entries of \<open>x\<close> per particle, positive masses and non-negative
  stiffness, the energy \<open>x \<cdot> (A x) / 2 - b \<cdot> x\<close> of the iterate (\<open>A\<close> the matrix-free operator,
  \<open>b\<close> the right-hand side built at initialisation) is non-increasing from every iteration
  to the next, restart iterations included.
\<close>

theorem energy_non_increasing:
  assumes "neighborsValid st" "length (getX st) = 3 * numParticles st"
    and "\<forall>i < numParticles st. 0 < getMass st i" and "0 \<le> getStiffness st"
  shows "successively
           (\<lambda>e e'. energy st (matrixFreeRHS st) (snd e') \<le> energy st (matrixFreeRHS st) (snd e))
           (snd (snd (cgSolveTrace st)))"
proof -
  define delta where "delta = squaredNorm (initialResidual st)"
  define e0 where "e0 = (delta, getX st)"
  obtain s st1 tr where t: "cgSolveTrace st = (s, st1, tr)"
    by (cases "cgSolveTrace st") auto
  have "energyNonIncreasing st (matrixFreeRHS st) tr"
  proof (cases "converged delta delta")
    case True
    with t have "tr = [e0]" by (auto simp: cgSolveTrace_cases Let_def delta_def e0_def)
    then show ?thesis by (simp add: energyNonIncreasing_def)
  next
    case nc: False
    with t have loop: "cgLoop st (matrixFreeRHS st) delta 0 (initialResidual st)
        (initialResidual st) delta [e0] = (s, st1, tr)"
      by (simp add: cgSolveTrace_cases Let_def delta_def e0_def)
    show ?thesis
    proof (rule cgLoop_energy [OF loop assms(1,2) _ _ initialResidual_exact _ _ assms(3,4)])
      show "dot (initialResidual st) (initialResidual st) = delta"
        by (simp add: delta_def squaredNorm_dot)
      show "0 < delta" using nc by (rule not_converged_pos)
      show "energyNonIncreasing st (matrixFreeRHS st) [e0]"
        by (simp add: energyNonIncreasing_def)
    qed (simp_all add: e0_def)
  qed
  then show ?thesis using t by (simp add: energyNonIncreasing_def)
qed


theorem energy_non_increasing_witness:
  "neighborsValid (prepareSolve compression_example) \<and>
   length (getX (prepareSolve compression_example)) =
     3 * numParticles (prepareSolve compression_example) \<and>
   0 < getMass (prepareSolve compression_example) 0 \<and>
   0 < getMass (prepareSolve compression_example) 1 \<and>
   0 \<le> getStiffness (prepareSolve compression_example) \<and>
   energy compression_prepared (matrixFreeRHS compression_prepared)
     [- (5361128472238562500 / 19851897629672518531), 0, 0,
      586175847398704739345 / 59555782222512222372, 0, 0]
     \<le> energy compression_prepared (matrixFreeRHS compression_prepared) [0, 0, 0, 10, 0, 0] \<and>
   energy compression_prepared (matrixFreeRHS compression_prepared)
     [- (500000 / 666667), 0, 0, 19890665 / 2000004, 0, 0]
     \<le> energy compression_prepared (matrixFreeRHS compression_prepared)
         [- (5361128472238562500 / 19851897629672518531), 0, 0,
          586175847398704739345 / 59555782222512222372, 0, 0]"
proof -
  have l: "length (getX compression_prepared) = 3 * numParticles compression_prepared"
    by (simp add: compression_prepared_fields)
  have m: "\<forall>i < numParticles compression_prepared. 0 < getMass compression_prepared i"
    by (simp add: compression_prepared_fields)
  have k: "0 \<le> getStiffness compression_prepared"
    by (simp add: compression_prepared_fields)
  show ?thesis
    using energy_non_increasing [OF compression_prepared_valid l m k]
      compression_prepared_valid l k
    by (simp add: prepare_compression_example trace_compression compression_prepared_fields)
qed

section \<open>The local projection loop\<close>

declare projectionLoopSpec.simps [simp del]

subsection \<open>What the loop does in general\<close>

lemma projectionLoop_count: "snd (projectionLoop st i it C p) \<le> max it max_steps"
proof (induction st i it C p rule: projectionLoop.induct)
  case (1 st i it C p)
  show ?case
  proof (cases "C_goal < \<bar>C\<bar> \<and> it < max_steps")
    case False
    then show ?thesis by (subst projectionLoop.simps) auto
  next
    case True
    show ?thesis
    proof (cases "squaredNormBlocks (calculateNablaC st i p) = 0")
      case z: True
      with True show ?thesis by (subst projectionLoop.simps) (auto simp: Let_def)
    next
      case nz: False
      have "snd (projectionLoop st i (it + 1)
                  (if it + 1 + 1 < max_steps
                   then calculateC st i
                     (moveParticles st i
                        (- C / (squaredNormBlocks (calculateNablaC st i p) + regularization))
                        (calculateNablaC st i p) p)
                   else C)
                  (moveParticles st i
                     (- C / (squaredNormBlocks (calculateNablaC st i p) + regularization))
                     (calculateNablaC st i p) p))
            \<le> max (it + 1) max_steps"
        by (rule "1.IH" [OF True refl refl refl nz refl refl refl])
      with True nz show ?thesis
        by (subst projectionLoop.simps) (auto simp: Let_def)
    qed
  qed
qed

lemma projectionLoop_behaviour:
  "snd (project st i) \<le> 100"
  "\<bar>C\<bar> \<le> 1 / 10 ^ 14 \<Longrightarrow> projectionLoop st i it C p = (p, it)"
  "100 \<le> it \<Longrightarrow> projectionLoop st i it C p = (p, it)"
  "1 / 10 ^ 14 < \<bar>C\<bar> \<Longrightarrow> it < 100 \<Longrightarrow> squaredNormBlocks (calculateNablaC st i p) = 0 \<Longrightarrow>
     projectionLoop st i it C p = (p, it + 1)"
  "1 / 10 ^ 14 < \<bar>C\<bar> \<Longrightarrow> it < 100 \<Longrightarrow> squaredNormBlocks (calculateNablaC st i p) \<noteq> 0 \<Longrightarrow>
     projectionLoop st i it C p =
       (let g = calculateNablaC st i p;
            cdg = - C / (squaredNormBlocks g + 1 / 10 ^ 6);
            p1 = moveParticles st i cdg g p
        in projectionLoop st i (it + 1) (if it + 2 < 100 then calculateC st i p1 else C) p1)"
  "moveParticles st i cdg g p ! 0 =
     vadd (p ! 0) (vscale (cdg * real (getNumFluidNeighbors st i)) (g ! 0))"
  "j < numberOfNeighbors st i \<Longrightarrow>
   moveParticles st i cdg g p ! (j + 1) =
     (if point_set_id (getNeighbor st i j) = 0
      then vadd (p ! (j + 1))
             (vscale (cdg * real (getNumFluidNeighbors st (point_id (getNeighbor st i j))))
                (g ! (j + 1)))
      else p ! (j + 1))"
proof -
  show "snd (project st i) \<le> 100"
    using projectionLoop_count [of st i 0] by (simp add: project_def Let_def max_steps_def)
  show "\<bar>C\<bar> \<le> 1 / 10 ^ 14 \<Longrightarrow> projectionLoop st i it C p = (p, it)"
    by (subst projectionLoop.simps) (simp add: C_goal_def)
  show "100 \<le> it \<Longrightarrow> projectionLoop st i it C p = (p, it)"
    by (subst projectionLoop.simps) (simp add: max_steps_def)
  show "1 / 10 ^ 14 < \<bar>C\<bar> \<Longrightarrow> it < 100 \<Longrightarrow> squaredNormBlocks (calculateNablaC st i p) = 0 \<Longrightarrow>
     projectionLoop st i it C p = (p, it + 1)"
    by (subst projectionLoop.simps) (simp add: C_goal_def max_steps_def Let_def)
  show "1 / 10 ^ 14 < \<bar>C\<bar> \<Longrightarrow> it < 100 \<Longrightarrow> squaredNormBlocks (calculateNablaC st i p) \<noteq> 0 \<Longrightarrow>
     projectionLoop st i it C p =
       (let g = calculateNablaC st i p;
            cdg = - C / (squaredNormBlocks g + 1 / 10 ^ 6);
            p1 = moveParticles st i cdg g p
        in projectionLoop st i (it + 1) (if it + 2 < 100 then calculateC st i p1 else C) p1)"
    by (subst projectionLoop.simps)
      (simp add: C_goal_def max_steps_def regularization_def Let_def)
  show "moveParticles st i cdg g p ! 0 =
     vadd (p ! 0) (vscale (cdg * real (getNumFluidNeighbors st i)) (g ! 0))"
    by (simp add: moveParticles_def)
  show "j < numberOfNeighbors st i \<Longrightarrow>
   moveParticles st i cdg g p ! (j + 1) =
     (if point_set_id (getNeighbor st i j) = 0
      then vadd (p ! (j + 1))
             (vscale (cdg * real (getNumFluidNeighbors st (point_id (getNeighbor st i j))))
                (g ! (j + 1)))
      else p ! (j + 1))"
    by (simp add: moveParticles_def Let_def)
qed

subsection \<open>The last pass reuses an old constraint value\<close>

lemma slow_example_fields:
  "numParticles slow_example = 1"
  "getPosition slow_example = (\<lambda>s i. if s = 0 then Vec3 (- (3117 / 6250)) 0 0 else Vec3 0 0 0)"
  "getMass slow_example = (\<lambda>i. 3999)"
  "getDensity0 slow_example = 4000"
  "getBoundaryPsi slow_example = (\<lambda>s i. 2)"
  "getNeighbors slow_example = (\<lambda>i. [\<lparr>point_set_id = 1, point_id = 0\<rparr>])"
  "W_zero slow_example = 1"
  "W slow_example = (\<lambda>v. if squaredNorm3 v < 1 then 1 - sqrt (squaredNorm3 v) else 0)"
  "gradW slow_example = (\<lambda>v. if 0 < squaredNorm3 v \<and> squaredNorm3 v < 1
                     then vscale (- 1 / sqrt (squaredNorm3 v)) v else vzero)"
  "getX slow_example = [0, 0, 0]"
  "getNumFluidNeighbors slow_example = (\<lambda>i. 0)"
  by (simp_all add: slow_example_def)

lemma slow_prepared_fields:
  "numParticles slow_prepared = 1"
  "getPosition slow_prepared = (\<lambda>s i. if s = 0 then Vec3 (- (3117 / 6250)) 0 0 else Vec3 0 0 0)"
  "getMass slow_prepared = (\<lambda>i. 3999)"
  "getDensity0 slow_prepared = 4000"
  "getBoundaryPsi slow_prepared = (\<lambda>s i. 2)"
  "getNeighbors slow_prepared = (\<lambda>i. [\<lparr>point_set_id = 1, point_id = 0\<rparr>])"
  "W_zero slow_prepared = 1"
  "W slow_prepared = (\<lambda>v. if squaredNorm3 v < 1 then 1 - sqrt (squaredNorm3 v) else 0)"
  "gradW slow_prepared = (\<lambda>v. if 0 < squaredNorm3 v \<and> squaredNorm3 v < 1
                     then vscale (- 1 / sqrt (squaredNorm3 v)) v else vzero)"
  "getX slow_prepared = [- (3117 / 6250), 0, 0]"
  "getNumFluidNeighbors slow_prepared = (\<lambda>i. if i < 1 then 1 else 0)"
  by (simp_all add: slow_prepared_def slow_example_fields)

lemma prepare_slow_example: "prepareSolve slow_example = slow_prepared"
  unfolding prepareSolve_def prepareSolve_closed slow_prepared_def
  by (rule TimeStepPF.equality)
    (auto simp: slow_example_fields upt_conv_Cons setBlock_def countFluidNeighbors_def
      numberOfNeighbors_def getNeighbor_def fun_eq_iff)

lemma gather_slow: "gatherP slow_prepared 0 = slow_p (slow_C 0)"
  by (simp add: gatherP_def slow_p_def slow_C_def numberOfNeighbors_def getNeighbor_def
      Vec3Block_def slow_prepared_fields)

text \<open>The positions \<open>slow_p c\<close> for a constraint value \<open>0 < c \<le> 1 / 1562500\<close>.\<close>

lemma calculateC_slow:
  assumes "0 < c" "c \<le> 1 / 1562500"
  shows "calculateC slow_prepared 0 (slow_p c) = c"
proof -
  have d: "0 < 1 / 2 - 2000 * c" "1 / 2 - 2000 * c < 1" using assms by simp_all
  then have sq: "(1 / 2 - 2000 * c) * (1 / 2 - 2000 * c) < 1"
    by (smt (verit) mult_le_one mult_less_cancel_right2)
  have sq': "(2000 * c - 1 / 2) * (2000 * c - 1 / 2) < 1"
    using sq by (simp add: algebra_simps)
  have ab: "\<bar>2000 * c - 1 / 2\<bar> = 1 / 2 - 2000 * c" using d by simp
  have "calculateC slow_prepared 0 (slow_p c) =
        (let C = (3999 + 2 * (1 - (1 / 2 - 2000 * c))) * (1 / 4000) - 1 in if C < 0 then 0 else C)"
    using sq'
    by (simp add: calculateC_def density_def densityTerm_def density0_inv_def slow_p_def
        numberOfNeighbors_def getNeighbor_def slow_prepared_fields Let_def ab)
  also have "(3999 + 2 * (1 - (1 / 2 - 2000 * c))) * (1 / 4000) - 1 = c"
    by (simp add: algebra_simps)
  finally show ?thesis using assms by simp
qed


lemma slow_C_98: "C_goal < slow_C 98"
  by (simp add: C_goal_def slow_C_def power_divide)

lemma slow_C_99: "slow_C 99 \<le> C_goal"
  by (simp add: C_goal_def slow_C_def power_divide)

lemma slow_C_pos: "0 < slow_C n"
  by (simp add: slow_C_def)

lemma slow_C_Suc: "slow_C (Suc n) = 5 / 6 * slow_C n"
  by (simp add: slow_C_def)

lemma slow_C_antimono: "m \<le> n \<Longrightarrow> slow_C n \<le> slow_C m"
  by (simp add: slow_C_def power_decreasing)

lemma slow_C_le: "slow_C n \<le> 1 / 1562500"
  using slow_C_antimono [of 0 n] by (simp add: slow_C_def)

lemma nabla_slow:
  assumes "0 < c" "c \<le> 1 / 1562500"
  shows "calculateNablaC slow_prepared 0 (slow_p c) =
           [Vec3 (1 / 2000) 0 0, Vec3 (- (1 / 2000)) 0 0]"
proof -
  have d: "0 < 1 / 2 - 2000 * c" "1 / 2 - 2000 * c < 1" using assms by simp_all
  then have "(1 / 2 - 2000 * c) * (1 / 2 - 2000 * c) < 1"
    by (smt (verit) mult_le_one mult_less_cancel_right2)
  then have sq: "(2000 * c - 1 / 2) * (2000 * c - 1 / 2) < 1"
    by (simp add: algebra_simps)
  have ne: "2000 * c - 1 / 2 \<noteq> 0" "4000 * c < 1" using d by simp_all
  have ab: "\<bar>2000 * c - 1 / 2\<bar> = 1 / 2 - 2000 * c" using d by simp
  have q: "(2000 * c - 1 / 2) / (1 / 2 - 2000 * c) = - 1"
    using d by (simp add: field_simps)
  show ?thesis
    using sq ne
    by (simp add: calculateNablaC_def nablaBlock_def density0_inv_def slow_p_def
        numberOfNeighbors_def getNeighbor_def slow_prepared_fields Let_def ab vzero_def q
        zero_less_mult_iff)
qed


lemma dg_slow:
  "squaredNormBlocks [Vec3 (1 / 2000) 0 0, Vec3 (- (1 / 2000)) 0 0] = 1 / 2000000"
  by (simp add: squaredNormBlocks_def)

lemma move_slow:
  "moveParticles slow_prepared 0 cdg
     [Vec3 (1 / 2000) 0 0, Vec3 (- (1 / 2000)) 0 0] (slow_p c) = slow_p (c + cdg / 4000000)"
  by (simp add: moveParticles_def slow_p_def numberOfNeighbors_def getNeighbor_def
      slow_prepared_fields Let_def algebra_simps)

lemma slow_step_size: "c + - (C / (1 / 2000000 + regularization)) / 4000000 = c - C / 6"
  by (simp add: regularization_def)

text \<open>One pass of the source loop on the example: \<open>C\<close> is the loop variable, \<open>c\<close> the
  constraint value of the positions.\<close>

lemma projectionLoop_slow_step:
  assumes "0 < c" "c \<le> 1 / 1562500" "C_goal < C" "it < 100"
  shows "projectionLoop slow_prepared 0 it C (slow_p c) =
         projectionLoop slow_prepared 0 (it + 1)
           (if it + 2 < 100 then calculateC slow_prepared 0 (slow_p (c - C / 6)) else C)
           (slow_p (c - C / 6))"
proof -
  have g: "0 < C_goal" by (simp add: C_goal_def)
  then have a: "C_goal < \<bar>C\<bar>" using assms(3) by simp
  show ?thesis
    using a assms(4)
    by (subst projectionLoop.simps)
      (simp add: nabla_slow [OF assms(1,2)] dg_slow move_slow regularization_def max_steps_def
        Let_def)
qed

lemma projectionLoopSpec_slow_step:
  assumes "0 < c" "c \<le> 1 / 1562500" "C_goal < c" "it < 100"
  shows "projectionLoopSpec slow_prepared 0 it (slow_p c) =
         projectionLoopSpec slow_prepared 0 (it + 1) (slow_p (c - c / 6))"
proof -
  have g: "0 < C_goal" by (simp add: C_goal_def)
  then have a: "C_goal < \<bar>c\<bar>" using assms(3) by simp
  show ?thesis
    using a assms(4)
    by (subst projectionLoopSpec.simps)
      (simp add: calculateC_slow [OF assms(1,2)] nabla_slow [OF assms(1,2)] dg_slow move_slow
        regularization_def max_steps_def Let_def)
qed

lemma slow_C_step: "slow_C n - slow_C n / 6 = slow_C (Suc n)"
  by (simp add: slow_C_def)

lemma slow_C_goal: "n \<le> 98 \<Longrightarrow> C_goal < slow_C n"
  using slow_C_98 slow_C_antimono [of n 98] by simp

lemma projectionLoop_slow_run:
  "n \<le> 98 \<Longrightarrow>
   projectionLoop slow_prepared 0 0 (slow_C 0) (slow_p (slow_C 0)) =
   projectionLoop slow_prepared 0 n (slow_C n) (slow_p (slow_C n))"
proof (induction n)
  case 0
  show ?case by simp
next
  case (Suc n)
  then have n: "n \<le> 98" "n < 100" "n + 2 < 100" by simp_all
  have "projectionLoop slow_prepared 0 n (slow_C n) (slow_p (slow_C n)) =
        projectionLoop slow_prepared 0 (Suc n) (slow_C (Suc n)) (slow_p (slow_C (Suc n)))"
    using projectionLoop_slow_step [OF slow_C_pos slow_C_le slow_C_goal [OF n(1)] n(2)] n(3)
    by (simp add: slow_C_step calculateC_slow [OF slow_C_pos slow_C_le])
  with Suc.IH [OF n(1)] show ?case by simp
qed

lemma projectionLoopSpec_slow_run:
  "n \<le> 99 \<Longrightarrow>
   projectionLoopSpec slow_prepared 0 0 (slow_p (slow_C 0)) =
   projectionLoopSpec slow_prepared 0 n (slow_p (slow_C n))"
proof (induction n)
  case 0
  show ?case by simp
next
  case (Suc n)
  then have n: "n \<le> 98" "n < 100" "n \<le> 99" by simp_all
  have "projectionLoopSpec slow_prepared 0 n (slow_p (slow_C n)) =
        projectionLoopSpec slow_prepared 0 (Suc n) (slow_p (slow_C (Suc n)))"
    using projectionLoopSpec_slow_step [OF slow_C_pos slow_C_le slow_C_goal [OF n(1)] n(2)]
    by (simp add: slow_C_step)
  with Suc.IH [OF n(3)] show ?case by simp
qed


lemma project_slow_code:
  "project slow_prepared 0 = projectionLoop slow_prepared 0 99 (slow_C 98) (slow_p (slow_C 99))"
  "projectionLoop slow_prepared 0 99 (slow_C 98) (slow_p (slow_C 99)) =
     (slow_p (slow_C 99 - slow_C 98 / 6), 100)"
proof -
  have "project slow_prepared 0 =
        projectionLoop slow_prepared 0 0 (slow_C 0) (slow_p (slow_C 0))"
    by (simp add: project_def gather_slow calculateC_slow [OF slow_C_pos slow_C_le] Let_def)
  also have "\<dots> = projectionLoop slow_prepared 0 98 (slow_C 98) (slow_p (slow_C 98))"
    by (rule projectionLoop_slow_run) simp
  also have "\<dots> = projectionLoop slow_prepared 0 99 (slow_C 98) (slow_p (slow_C 99))"
    using projectionLoop_slow_step [OF slow_C_pos slow_C_le slow_C_98, of 98 98]
    by (simp add: slow_C_step)
  finally show "project slow_prepared 0 =
      projectionLoop slow_prepared 0 99 (slow_C 98) (slow_p (slow_C 99))" .
  have "projectionLoop slow_prepared 0 99 (slow_C 98) (slow_p (slow_C 99)) =
        projectionLoop slow_prepared 0 100 (slow_C 98) (slow_p (slow_C 99 - slow_C 98 / 6))"
    using projectionLoop_slow_step [OF slow_C_pos slow_C_le slow_C_98, of 99 99]
    by simp
  also have "\<dots> = (slow_p (slow_C 99 - slow_C 98 / 6), 100)"
    by (subst projectionLoop.simps) (simp add: max_steps_def)
  finally show "projectionLoop slow_prepared 0 99 (slow_C 98) (slow_p (slow_C 99)) =
     (slow_p (slow_C 99 - slow_C 98 / 6), 100)" .
qed

lemma project_slow_spec: "projectSpec slow_prepared 0 = (slow_p (slow_C 99), 99)"
proof -
  have "projectSpec slow_prepared 0 = projectionLoopSpec slow_prepared 0 0 (slow_p (slow_C 0))"
    by (simp add: projectSpec_def gather_slow)
  also have "\<dots> = projectionLoopSpec slow_prepared 0 99 (slow_p (slow_C 99))"
    by (rule projectionLoopSpec_slow_run) simp
  also have "\<dots> = (slow_p (slow_C 99), 99)"
    using slow_C_99 slow_C_pos [of 99]
    by (subst projectionLoopSpec.simps)
      (simp add: calculateC_slow [OF slow_C_pos slow_C_le] Let_def)
  finally show ?thesis .
qed

text \<open>
  Claim C4 states that the loop exits early when \<open>|C| \<le> 1e-14\<close> and that the step of every
  iteration is \<open>-C / (\<parallel>\<nabla>C\<parallel>\<^sup>2 + 1e-6)\<close>. The source tests \<^verbatim>\<open>it++ < max_steps\<close> in the loop
  condition and recomputes \<open>C\<close> at the end of the body only if \<^verbatim>\<open>it + 1 < max_steps\<close>, with
  \<open>it\<close> already incremented: after the 99th pass \<open>C\<close> is not recomputed, and the 100th pass
  is entered and stepped with the value computed after the 98th. In the configuration below
  the constraint value of the positions after 99 passes is within the goal, the loop with
  the constraint value of the current positions stops there, and the source loop makes a
  100th pass and moves the particle.
\<close>

theorem projection_last_step_uses_stale_C:
  "project (prepareSolve slow_example) 0 =
     projectionLoop (prepareSolve slow_example) 0 99 (slow_C 98) (slow_p (slow_C 99)) \<and>
   calculateC (prepareSolve slow_example) 0 (slow_p (slow_C 99)) = slow_C 99 \<and>
   slow_C 99 \<le> C_goal \<and> C_goal < slow_C 98 \<and>
   project (prepareSolve slow_example) 0 = (slow_p (slow_C 99 - slow_C 98 / 6), 100) \<and>
   projectSpec (prepareSolve slow_example) 0 = (slow_p (slow_C 99), 99) \<and>
   slow_p (slow_C 99 - slow_C 98 / 6) \<noteq> slow_p (slow_C 99)"
proof -
  have ne: "slow_p (slow_C 99 - slow_C 98 / 6) \<noteq> slow_p (slow_C 99)"
    using slow_C_pos [of 98] by (simp add: slow_p_def)
  show ?thesis
    using project_slow_code project_slow_spec slow_C_98 slow_C_99 ne
      calculateC_slow [OF slow_C_pos slow_C_le, of 99]
    by (simp add: prepare_slow_example)
qed

end
